theory Spec2Isabelle
  imports Main
begin

section \<open>JavaScript values read by the scheduler\<close>

text \<open>
  The scheduler (the cron module with \<open>processScheduledPosts\<close> and the three
  publishers) reads parsed JSON bodies and the \<open>Mixed\<close>-typed \<open>media\<close> field of a
  post. Both are arbitrary JSON values; \<open>JUndef\<close> is JavaScript's \<open>undefined\<close>, the
  value of a missing property. Numbers are restricted to integers. An object is the list
  of its properties (the first binding of a key is the property).
\<close>

datatype jsval =
    JUndef
  | JNull
  | JBool bool
  | JNum int
  | JStr string
  | JArr "jsval list"
  | JObj "(string \<times> jsval) list"

text \<open>
  Strings the code builds from values it does not control are kept symbolic, as a list of
  pieces: literal text, a number in decimal, \<open>String(v)\<close> of a value (template literals,
  \<open>URLSearchParams\<close>, \<open>FormData\<close>), \<open>JSON.stringify(v)\<close>, and the base64 text of a
  byte buffer. The string denoted is the concatenation of the pieces.
\<close>

type_synonym buffer = "nat list"

datatype chunk =
    Txt string
  | Num nat
  | Js jsval
  | Json jsval
  | B64 buffer

type_synonym jstr = "chunk list"

text \<open>Every exception of the module is an \<open>Error\<close> whose only field read is \<open>message\<close>.\<close>

datatype exn = Error (message: jstr)

definition TypeError :: "string \<Rightarrow> exn" where
  \<comment> \<open>reading property \<open>k\<close> of \<open>undefined\<close>/\<open>null\<close>, or calling a missing method \<open>k\<close>;
      the engine's wording of the message is not modelled\<close>
  "TypeError k = Error [Txt ''TypeError: '', Txt k]"

definition SyntaxError :: exn where
  \<comment> \<open>\<open>response.json()\<close> on a body that is not JSON\<close>
  "SyntaxError = Error [Txt ''SyntaxError: Unexpected token in JSON'']"

fun truthy :: "jsval \<Rightarrow> bool" where
  "truthy JUndef = False"
| "truthy JNull = False"
| "truthy (JBool b) = b"
| "truthy (JNum n) = (n \<noteq> 0)"
| "truthy (JStr s) = (s \<noteq> [])"
| "truthy (JArr xs) = True"
| "truthy (JObj kvs) = True"

fun getp :: "jsval \<Rightarrow> string \<Rightarrow> exn + jsval" where
  \<comment> \<open>\<open>v.k\<close>: throws on \<open>undefined\<close> and \<open>null\<close>; own properties only (members inherited
      from a prototype are not modelled), \<open>length\<close> of arrays and strings included\<close>
  "getp JUndef k = Inl (TypeError k)"
| "getp JNull k = Inl (TypeError k)"
| "getp (JObj kvs) k = Inr (case map_of kvs k of None \<Rightarrow> JUndef | Some v \<Rightarrow> v)"
| "getp (JArr xs) k = Inr (if k = ''length'' then JNum (int (length xs)) else JUndef)"
| "getp (JStr s) k = Inr (if k = ''length'' then JNum (int (length s)) else JUndef)"
| "getp (JBool b) k = Inr JUndef"
| "getp (JNum n) k = Inr JUndef"

definition optp :: "jsval \<Rightarrow> string \<Rightarrow> jsval" where
  \<comment> \<open>\<open>v?.k\<close>\<close>
  "optp v k = (case getp v k of Inl e \<Rightarrow> JUndef | Inr x \<Rightarrow> x)"

definition js_or :: "jsval \<Rightarrow> jsval \<Rightarrow> jsval" where
  \<comment> \<open>\<open>a || b\<close>\<close>
  "js_or a b = (if truthy a then a else b)"

definition isArray :: "jsval \<Rightarrow> bool" where
  "isArray v = (case v of JArr xs \<Rightarrow> True | _ \<Rightarrow> False)"

definition elems :: "jsval \<Rightarrow> jsval list" where
  "elems v = (case v of JArr xs \<Rightarrow> xs | _ \<Rightarrow> [])"

definition is_digit :: "char \<Rightarrow> bool" where
  "is_digit c = (c \<in> set ''0123456789'')"

fun gt0 :: "jsval \<Rightarrow> bool" where
  \<comment> \<open>\<open>v > 0\<close>. A \<open>length\<close> is a number unless the value is an object with its own
      \<open>length\<close> key; then JavaScript converts: a string of decimal digits by its value,
      any other text and any array or object is taken as \<open>NaN\<close> here.\<close>
  "gt0 (JNum n) = (0 < n)"
| "gt0 (JBool b) = b"
| "gt0 (JStr s) = (s \<noteq> [] \<and> list_all is_digit s \<and> list_ex (\<lambda>c. c \<noteq> CHR ''0'') s)"
| "gt0 v = False"

definition to_jstr :: "jsval \<Rightarrow> jstr" where
  \<comment> \<open>\<open>String(v)\<close>: a string is itself\<close>
  "to_jstr v = (case v of JStr s \<Rightarrow> [Txt s] | _ \<Rightarrow> [Js v])"

fun is_prefix :: "string \<Rightarrow> string \<Rightarrow> bool" where
  "is_prefix [] ys = True"
| "is_prefix (x # xs) [] = False"
| "is_prefix (x # xs) (y # ys) = (x = y \<and> is_prefix xs ys)"

fun js_includes :: "string \<Rightarrow> string \<Rightarrow> bool" where
  \<comment> \<open>\<open>s.includes(p)\<close>\<close>
  "js_includes [] p = is_prefix p []"
| "js_includes (c # cs) p = (is_prefix p (c # cs) \<or> js_includes cs p)"

definition lower_char :: "char \<Rightarrow> char" where
  "lower_char c =
     (if (65::nat) \<le> of_char c \<and> of_char c \<le> (90::nat)
      then char_of (of_char c + (32::nat)) else c)"

definition toLowerCase :: "string \<Rightarrow> string" where
  "toLowerCase s = map lower_char s"

definition is_space :: "char \<Rightarrow> bool" where
  "is_space c = (of_char c \<in> {9, 10, 11, 12, 13, 32, 160 :: nat})"

definition trim :: "string \<Rightarrow> string" where
  "trim s = rev (dropWhile is_space (rev (dropWhile is_space s)))"

section \<open>The outside world\<close>

datatype auth =
    NoAuth
  | Bearer string
  | OAuth1 string jstr "(string \<times> jstr) list" string string string string
    \<comment> \<open>\<open>generateOAuthHeader(method, url, params, consumerKey, consumerSecret,
        accessToken, accessTokenSecret)\<close>: the signed header (timestamp, nonce and
        HMAC-SHA1 signature) is kept as its arguments\<close>

datatype body =
    NoBody
  | FormUrl "(string \<times> jstr) list"    \<comment> \<open>\<open>URLSearchParams\<close>\<close>
  | JsonBody jsval                      \<comment> \<open>\<open>JSON.stringify(v)\<close>\<close>
  | Multipart "(jstr \<times> jstr) list" buffer  \<comment> \<open>\<open>FormData\<close>: the fields, then the file\<close>
  | Raw buffer
  | RegisterUpload jstr      \<comment> \<open>LinkedIn's \<open>registerData\<close> for the owner given\<close>
  | Share jstr string "jsval list option"
    \<comment> \<open>LinkedIn's \<open>shareData\<close>: author, text, and the assets of an image share
        (\<open>None\<close>: a text-only share)\<close>

record request =
  meth :: string
  url :: jstr
  auth :: auth
  extra_headers :: jsval
  body :: body

record response =
  status :: nat
  rtext :: string          \<comment> \<open>\<open>await response.text()\<close>\<close>
  json :: "jsval option"   \<comment> \<open>\<open>await response.json()\<close>; \<open>None\<close>: the body does not parse\<close>
  bytes :: buffer          \<comment> \<open>\<open>await response.arrayBuffer()\<close>\<close>

definition ok :: "response \<Rightarrow> bool" where
  "ok r = (200 \<le> status r \<and> status r \<le> 299)"

record account =
  connected :: bool
  accessToken :: "string option"
  oauth1aAccessToken :: "string option"
  oauth1aAccessTokenSecret :: "string option"

record user =
  uid :: nat
  connectedAccounts :: "string \<rightharpoonup> account"

record platform_result =
  pr_success :: bool
  pr_postId :: "jstr option"
  pr_error :: "jstr option"

datatype post_status = scheduled | published | failed

text \<open>
  A due post comes out of the query with its owner populated: the user document, or
  \<open>None\<close> (JavaScript's \<open>null\<close>) when the collection holds no document for \<open>userId\<close>.
  A user's \<open>connectedAccounts\<close> maps a platform name to the account stored under it.
\<close>

record post =
  pid :: nat
  userId :: "user option"      \<comment> \<open>populated by \<open>.populate('userId')\<close>\<close>
  content :: string
  platforms :: "string list"
  media :: jsval
  pstatus :: post_status
  publishedAt :: "nat option"
  errorMessage :: "jstr option"
  platformResults :: "string \<rightharpoonup> platform_result"

text \<open>
  The world a run acts on. \<open>net\<close> holds what the successive \<open>fetch\<close> calls will meet, in
  the order the calls are made: a rejection or a response; once it is used up every
  further call is rejected. \<open>sent\<close> logs the requests made. \<open>clock\<close> holds the successive
  readings of \<open>Date.now()\<close> / \<open>new Date()\<close> the run makes use of (the start of the run,
  the time of the query, the check before each post, \<open>publishedAt\<close>, the identifier
  LinkedIn's publisher falls back on). \<open>races\<close> says, for each successive Twitter
  attempt of the orchestrator, whether the 5 second timer of its \<open>Promise.race\<close> fires
  first. \<open>db_connect\<close> is the rejection met by the connection to the store, its 3 second
  timeout included; \<open>due\<close> is what the query for due posts answers (the posts with their
  owners populated, or a rejection). \<open>db_faults\<close> holds the rejections met by the
  successive store writes (\<open>None\<close>, or nothing left: the write succeeds). \<open>invoked\<close> logs
  the publishers the orchestrator calls. \<open>saved\<close> is the post collection, \<open>postsCount\<close>
  the counter of each user document.
\<close>

record world =
  net :: "(exn + response) list"
  sent :: "request list"
  clock :: "nat list"
  races :: "bool list"
  db_connect :: "exn option"
  due :: "exn + post list"
  db_faults :: "exn option list"
  invoked :: "string list"
  saved :: "nat \<rightharpoonup> post"
  postsCount :: "nat \<Rightarrow> nat"
  TWITTER_API_KEY :: "string option"
  TWITTER_API_SECRET :: "string option"

type_synonym 'a io = "world \<Rightarrow> (exn + 'a) \<times> world"

definition ret :: "'a \<Rightarrow> 'a io" where
  "ret a w = (Inr a, w)"

definition throw :: "exn \<Rightarrow> 'a io" where
  "throw e w = (Inl e, w)"

definition lift :: "exn + 'a \<Rightarrow> 'a io" where
  "lift r w = (r, w)"

definition await :: "'a io \<Rightarrow> ('a \<Rightarrow> 'b io) \<Rightarrow> 'b io" where
  \<comment> \<open>sequencing: an exception of the first part skips the rest\<close>
  "await m f w = (case m w of (Inl e, w') \<Rightarrow> (Inl e, w') | (Inr a, w') \<Rightarrow> f a w')"

definition try_catch :: "'a io \<Rightarrow> (exn \<Rightarrow> 'a io) \<Rightarrow> 'a io" where
  "try_catch m h w = (case m w of (Inl e, w') \<Rightarrow> h e w' | (Inr a, w') \<Rightarrow> (Inr a, w'))"

definition fetch :: "request \<Rightarrow> response io" where
  "fetch req w =
     (case net w of
        [] \<Rightarrow> (Inl (Error [Txt ''fetch failed'']), w\<lparr>sent := sent w @ [req]\<rparr>)
      | r # rs \<Rightarrow> (r, w\<lparr>net := rs, sent := sent w @ [req]\<rparr>))"

definition parse_json :: "response \<Rightarrow> jsval io" where
  \<comment> \<open>\<open>await response.json()\<close>\<close>
  "parse_json r = (case json r of None \<Rightarrow> throw SyntaxError | Some v \<Rightarrow> ret v)"

definition Date_now :: "world \<Rightarrow> nat \<times> world" where
  \<comment> \<open>the next reading of the clock, in milliseconds\<close>
  "Date_now w = (case clock w of [] \<Rightarrow> (0, w) | t # ts \<Rightarrow> (t, w\<lparr>clock := ts\<rparr>))"

definition now :: "nat io" where
  "now w = (case Date_now w of (t, w') \<Rightarrow> (Inr t, w'))"

definition falsy_str :: "string option \<Rightarrow> bool" where
  \<comment> \<open>\<open>!s\<close> for a string that may be \<open>undefined\<close>\<close>
  "falsy_str s = (case s of None \<Rightarrow> True | Some t \<Rightarrow> t = [])"

definition getenv :: "(world \<Rightarrow> string option) \<Rightarrow> string option io" where
  \<comment> \<open>\<open>process.env.NAME\<close>\<close>
  "getenv f w = (Inr (f w), w)"

record publish_result =
  success :: bool
  postId :: "jstr option"
  post_url :: "jstr option"
  error :: "jstr option"

text \<open>
  The \<open>sentAt: new Date()\<close> field of a publisher's result is left out: nothing reads it.
  Of a request the model keeps method, URL, authorization and body; the fixed
  \<open>Content-Type\<close> and \<open>User-Agent\<close> headers are left out. Where a parameter of the
  source bears the name of a field above, the functions below call it otherwise: \<open>c\<close> for
  \<open>content\<close>, \<open>m\<close> for \<open>media\<close>, \<open>token\<close> for \<open>accessToken\<close>.
\<close>

section \<open>Twitter\<close>

definition uploadUrl :: jstr where
  "uploadUrl = [Txt ''https://upload.twitter.com/1.1/media/upload.json'']"

definition twitter_upload_request ::
  "(string \<times> jstr) list \<Rightarrow> string \<Rightarrow> string \<Rightarrow> string \<Rightarrow> string \<Rightarrow> request" where
  \<comment> \<open>a signed, form-encoded POST to the media endpoint\<close>
  "twitter_upload_request params consumerKey consumerSecret tok sec =
     \<lparr>meth = ''POST'', url = uploadUrl,
      auth = OAuth1 ''POST'' uploadUrl params consumerKey consumerSecret tok sec,
      extra_headers = JUndef, body = FormUrl params\<rparr>"

definition uploadImageSimple ::
  "buffer \<Rightarrow> string \<Rightarrow> string \<Rightarrow> string \<Rightarrow> string \<Rightarrow> string \<Rightarrow> jsval io" where
  "uploadImageSimple mediaBuffer mediaCategory consumerKey consumerSecret tok sec =
     await (fetch (twitter_upload_request
              [(''media_data'', [B64 mediaBuffer]), (''media_category'', [Txt mediaCategory])]
              consumerKey consumerSecret tok sec))
       (\<lambda>uploadResponse.
          if \<not> ok uploadResponse
          then throw (Error [Txt ''Twitter media upload failed: '', Num (status uploadResponse)])
          else await (parse_json uploadResponse)
                 (\<lambda>uploadResult. lift (getp uploadResult ''media_id_string'')))"

definition init_request ::
  "buffer \<Rightarrow> string \<Rightarrow> string \<Rightarrow> string \<Rightarrow> string \<Rightarrow> string \<Rightarrow> string \<Rightarrow> request" where
  "init_request mediaBuffer mediaType mediaCategory consumerKey consumerSecret tok sec =
     twitter_upload_request
       [(''command'', [Txt ''INIT'']), (''media_type'', [Txt mediaType]),
        (''total_bytes'', [Num (length mediaBuffer)]),
        (''media_category'', [Txt mediaCategory])]
       consumerKey consumerSecret tok sec"

definition append_request ::
  "buffer \<Rightarrow> jsval \<Rightarrow> string \<Rightarrow> string \<Rightarrow> string \<Rightarrow> string \<Rightarrow> request" where
  "append_request mediaBuffer mediaId consumerKey consumerSecret tok sec =
     twitter_upload_request
       [(''command'', [Txt ''APPEND'']), (''media_id'', to_jstr mediaId),
        (''segment_index'', [Txt ''0'']), (''media_data'', [B64 mediaBuffer])]
       consumerKey consumerSecret tok sec"

definition finalize_request ::
  "jsval \<Rightarrow> string \<Rightarrow> string \<Rightarrow> string \<Rightarrow> string \<Rightarrow> request" where
  "finalize_request mediaId consumerKey consumerSecret tok sec =
     twitter_upload_request
       [(''command'', [Txt ''FINALIZE'']), (''media_id'', to_jstr mediaId)]
       consumerKey consumerSecret tok sec"

definition phase_failed :: "string \<Rightarrow> response \<Rightarrow> exn" where
  \<comment> \<open>\<open>Twitter INIT failed: ${status} - ${errorText}\<close>\<close>
  "phase_failed phase r =
     Error [Txt ''Twitter '', Txt phase, Txt '' failed: '', Num (status r), Txt '' - '',
            Txt (rtext r)]"

definition uploadGifChunked ::
  "buffer \<Rightarrow> string \<Rightarrow> string \<Rightarrow> string \<Rightarrow> string \<Rightarrow> string \<Rightarrow> string \<Rightarrow> jsval io" where
  "uploadGifChunked mediaBuffer mediaType mediaCategory consumerKey consumerSecret tok sec =
     await (fetch (init_request mediaBuffer mediaType mediaCategory
                     consumerKey consumerSecret tok sec))
       (\<lambda>initResponse.
          if \<not> ok initResponse then throw (phase_failed ''INIT'' initResponse)
          else
     await (parse_json initResponse) (\<lambda>initResult.
     await (lift (getp initResult ''media_id_string'')) (\<lambda>mediaId.
     await (fetch (append_request mediaBuffer mediaId consumerKey consumerSecret tok sec))
       (\<lambda>appendResponse.
          if \<not> ok appendResponse then throw (phase_failed ''APPEND'' appendResponse)
          else
     await (fetch (finalize_request mediaId consumerKey consumerSecret tok sec))
       (\<lambda>finalizeResponse.
          if \<not> ok finalizeResponse then throw (phase_failed ''FINALIZE'' finalizeResponse)
          else
     await (parse_json finalizeResponse) (\<lambda>finalizeResult.
     await (lift (getp finalizeResult ''processing_info'')) (\<lambda>processing_info.
       if truthy processing_info then ret mediaId else ret mediaId)))))))"

definition status_request ::
  "jsval \<Rightarrow> string \<Rightarrow> string \<Rightarrow> string \<Rightarrow> string \<Rightarrow> request" where
  "status_request mediaId consumerKey consumerSecret tok sec =
     \<lparr>meth = ''GET'',
      url = uploadUrl @ [Txt ''?command=STATUS&media_id=''] @ to_jstr mediaId,
      auth = OAuth1 ''GET'' uploadUrl
               [(''command'', [Txt ''STATUS'']), (''media_id'', to_jstr mediaId)]
               consumerKey consumerSecret tok sec,
      extra_headers = JUndef, body = NoBody\<rparr>"

fun waitForProcessing_loop ::
  "nat \<Rightarrow> jsval \<Rightarrow> string \<Rightarrow> string \<Rightarrow> string \<Rightarrow> string \<Rightarrow> jsval io" where
  \<comment> \<open>the first argument counts the attempts left; the pauses are not modelled\<close>
  "waitForProcessing_loop 0 mediaId consumerKey consumerSecret tok sec =
     throw (Error [Txt ''GIF processing timeout - exceeded maximum wait time''])"
| "waitForProcessing_loop (Suc n) mediaId consumerKey consumerSecret tok sec =
     await (fetch (status_request mediaId consumerKey consumerSecret tok sec))
       (\<lambda>statusResponse.
          if \<not> ok statusResponse
          then waitForProcessing_loop n mediaId consumerKey consumerSecret tok sec
          else
     await (parse_json statusResponse) (\<lambda>statusResult.
     await (lift (getp statusResult ''processing_info'')) (\<lambda>processing_info.
       if optp processing_info ''state'' = JStr ''succeeded'' then ret mediaId
       else if optp processing_info ''state'' = JStr ''failed''
       then throw (Error [Txt ''GIF processing failed on Twitter servers''])
       else waitForProcessing_loop n mediaId consumerKey consumerSecret tok sec)))"

definition waitForProcessing ::
  "jsval \<Rightarrow> string \<Rightarrow> string \<Rightarrow> string \<Rightarrow> string \<Rightarrow> jsval io" where
  "waitForProcessing = waitForProcessing_loop 10"

definition download_request :: "jsval \<Rightarrow> request" where
  \<comment> \<open>\<open>fetch(imageUrl)\<close>\<close>
  "download_request imageUrl =
     \<lparr>meth = ''GET'', url = to_jstr imageUrl, auth = NoAuth, extra_headers = JUndef,
      body = NoBody\<rparr>"

definition uploadMediaToTwitterV1 :: "jsval \<Rightarrow> string \<Rightarrow> string \<Rightarrow> jsval io" where
  \<comment> \<open>the \<open>catch\<close> of the source logs and rethrows\<close>
  "uploadMediaToTwitterV1 imageUrl tok sec =
     await (fetch (download_request imageUrl))
       (\<lambda>imageResponse.
          if \<not> ok imageResponse
          then throw (Error [Txt ''Failed to fetch media: '', Num (status imageResponse)])
          else
            (case imageUrl of
               JStr s \<Rightarrow>
                 await (getenv TWITTER_API_KEY) (\<lambda>consumerKey.
                 await (getenv TWITTER_API_SECRET) (\<lambda>consumerSecret.
                   case (consumerKey, consumerSecret) of
                     (Some ck, Some cs) \<Rightarrow>
                       if ck = [] \<or> cs = []
                       then throw (Error [Txt ''Missing Twitter OAuth 1.0a app credentials''])
                       else if js_includes (toLowerCase s) ''.gif''
                       then uploadGifChunked (bytes imageResponse) ''image/gif'' ''tweet_gif''
                              ck cs tok sec
                       else uploadImageSimple (bytes imageResponse) ''tweet_image''
                              ck cs tok sec
                   | _ \<Rightarrow> throw (Error [Txt ''Missing Twitter OAuth 1.0a app credentials''])))
             | _ \<Rightarrow> throw (TypeError ''toLowerCase'')))"

definition has_media :: "jsval \<Rightarrow> bool" where
  \<comment> \<open>\<open>media && (media.hasMedia || (Array.isArray(media) && media.length > 0))\<close>\<close>
  "has_media m = (truthy m \<and> (truthy (optp m ''hasMedia'') \<or> (isArray m \<and> elems m \<noteq> [])))"

fun twitter_media_loop :: "jsval list \<Rightarrow> string \<Rightarrow> string \<Rightarrow> jsval list \<Rightarrow> jsval list io" where
  \<comment> \<open>\<open>for (const mediaItem of mediaArray)\<close>, the last argument being \<open>mediaIds\<close>\<close>
  "twitter_media_loop [] tok sec mediaIds = ret mediaIds"
| "twitter_media_loop (mediaItem # rest) tok sec mediaIds =
     await (lift (getp mediaItem ''cloudinaryUrl'')) (\<lambda>cloudinaryUrl.
       if truthy (js_or cloudinaryUrl (optp mediaItem ''url''))
       then await (uploadMediaToTwitterV1 (js_or cloudinaryUrl (optp mediaItem ''url'')) tok sec)
              (\<lambda>mediaId. twitter_media_loop rest tok sec
                            (if truthy mediaId then mediaIds @ [mediaId] else mediaIds))
       else twitter_media_loop rest tok sec mediaIds)"

definition text_only :: "string \<Rightarrow> jsval" where
  "text_only c = JObj [(''text'', JStr c)]"

definition with_media :: "string \<Rightarrow> jsval list \<Rightarrow> jsval" where
  "with_media c mediaIds =
     JObj [(''text'', JStr c), (''media'', JObj [(''media_ids'', JArr mediaIds)])]"

definition oauth1a_pair :: "account option \<Rightarrow> (string \<times> string) option" where
  \<comment> \<open>\<open>userAccount && userAccount.oauth1aAccessToken && userAccount.oauth1aAccessTokenSecret\<close>\<close>
  "oauth1a_pair userAccount =
     (case userAccount of
        None \<Rightarrow> None
      | Some a \<Rightarrow>
          (case (oauth1aAccessToken a, oauth1aAccessTokenSecret a) of
             (Some tok, Some sec) \<Rightarrow> if tok \<noteq> [] \<and> sec \<noteq> [] then Some (tok, sec) else None
           | _ \<Rightarrow> None))"

definition tweet_data :: "string \<Rightarrow> jsval \<Rightarrow> account option \<Rightarrow> jsval io" where
  \<comment> \<open>the media part of \<open>postToTwitter\<close>: the value of \<open>tweetData\<close> after it\<close>
  "tweet_data c m userAccount =
     (if has_media m then
        (case oauth1a_pair userAccount of
           Some (tok, sec) \<Rightarrow>
             try_catch
               (await (twitter_media_loop (if isArray m then elems m else [m])
                         tok sec [])
                  (\<lambda>mediaIds. ret (if mediaIds \<noteq> [] then with_media c mediaIds
                                    else text_only c)))
               (\<lambda>mediaError. ret (text_only c))
         | None \<Rightarrow> ret (text_only c))
      else ret (text_only c))"

definition tweet_request :: "string \<Rightarrow> jsval \<Rightarrow> request" where
  "tweet_request tok tweetData =
     \<lparr>meth = ''POST'', url = [Txt ''https://api.twitter.com/2/tweets''], auth = Bearer tok,
      extra_headers = JUndef, body = JsonBody tweetData\<rparr>"

definition succeeded :: "jsval \<Rightarrow> jstr option \<Rightarrow> publish_result" where
  "succeeded i u = \<lparr>success = True, postId = Some (to_jstr i), post_url = u, error = None\<rparr>"

definition failure :: "exn \<Rightarrow> publish_result" where
  \<comment> \<open>what every publisher's \<open>catch\<close> returns\<close>
  "failure e = \<lparr>success = False, postId = None, post_url = None, error = Some (message e)\<rparr>"

definition postToTwitter_try ::
  "string \<Rightarrow> string option \<Rightarrow> jsval \<Rightarrow> account option \<Rightarrow> publish_result io" where
  \<comment> \<open>the \<open>try\<close> block of \<open>postToTwitter\<close>\<close>
  "postToTwitter_try c token m userAccount =
     await (tweet_data c m userAccount) (\<lambda>tweetData.
       case token of
         None \<Rightarrow> throw (Error [Txt ''No access token provided''])
       | Some tok \<Rightarrow>
           if tok = [] then throw (Error [Txt ''No access token provided''])
           else
     await (fetch (tweet_request tok tweetData)) (\<lambda>response.
       if \<not> ok response
       then throw (Error [Txt ''Twitter API error: '', Num (status response), Txt '' - '',
                          Txt (rtext response)])
       else
     await (parse_json response) (\<lambda>data.
     await (lift (getp data ''data'')) (\<lambda>d.
       ret (succeeded (js_or (optp d ''id'') (JStr ''unknown'')) None)))))"

definition postToTwitter ::
  "string \<Rightarrow> string option \<Rightarrow> jsval \<Rightarrow> account option \<Rightarrow> publish_result io" where
  "postToTwitter c token m userAccount =
     try_catch (postToTwitter_try c token m userAccount)
       (\<lambda>e. ret (failure e))"

section \<open>Reddit\<close>

definition bearer :: "string option \<Rightarrow> auth" where
  \<comment> \<open>\<open>`Bearer ${accessToken}`\<close>\<close>
  "bearer token = Bearer (case token of None \<Rightarrow> ''undefined'' | Some t \<Rightarrow> t)"

definition lease_request :: "string option \<Rightarrow> request" where
  "lease_request token =
     \<lparr>meth = ''POST'', url = [Txt ''https://oauth.reddit.com/api/media/asset.json''],
      auth = bearer token, extra_headers = JUndef,
      body = FormUrl [(''filepath'', [Txt ''image.jpg'']), (''mimetype'', [Txt ''image/jpeg''])]\<rparr>"

fun lease_fields :: "jsval list \<Rightarrow> exn + (jstr \<times> jstr) list" where
  \<comment> \<open>\<open>fields.forEach(field => formData.append(field.name, field.value))\<close>\<close>
  "lease_fields [] = Inr []"
| "lease_fields (field # fs) =
     (case getp field ''name'' of
        Inl e \<Rightarrow> Inl e
      | Inr n \<Rightarrow>
          (case getp field ''value'' of
             Inl e \<Rightarrow> Inl e
           | Inr v \<Rightarrow>
               (case lease_fields fs of
                  Inl e \<Rightarrow> Inl e
                | Inr rest \<Rightarrow> Inr ((to_jstr n, to_jstr v) # rest))))"

definition forEach_fields :: "jsval \<Rightarrow> exn + (jstr \<times> jstr) list" where
  \<comment> \<open>\<open>uploadLease.fields.forEach(...)\<close>: only an array has \<open>forEach\<close>\<close>
  "forEach_fields uploadLease =
     (case getp uploadLease ''fields'' of
        Inl e \<Rightarrow> Inl e
      | Inr (JArr fs) \<Rightarrow> lease_fields fs
      | Inr v \<Rightarrow> Inl (TypeError ''forEach''))"

definition storage_request :: "jsval \<Rightarrow> (jstr \<times> jstr) list \<Rightarrow> buffer \<Rightarrow> request" where
  \<comment> \<open>the form (the lease's fields, then the file) sent to \<open>`https:${uploadLease.action}`\<close>\<close>
  "storage_request action formFields imageBuffer =
     \<lparr>meth = ''POST'', url = Txt ''https:'' # to_jstr action, auth = NoAuth,
      extra_headers = JUndef, body = Multipart formFields imageBuffer\<rparr>"

definition lease_upload ::
  "string \<Rightarrow> string \<Rightarrow> jsval \<Rightarrow> string option \<Rightarrow> (jsval \<times> jsval) io" where
  \<comment> \<open>the three steps \<open>uploadMediaForGallery\<close> and \<open>uploadImageToRedditAsset\<close> have in
      common, up to the wording of two messages: take a lease, fetch the image, send the
      form to the storage; the value is \<open>(uploadLease, leaseData.asset.asset_id)\<close>\<close>
  "lease_upload leaseMsg uploadMsg imageUrl token =
     await (fetch (lease_request token)) (\<lambda>leaseResponse.
       if \<not> ok leaseResponse then throw (Error [Txt leaseMsg, Num (status leaseResponse)])
       else
     await (parse_json leaseResponse) (\<lambda>leaseData.
     await (lift (getp leaseData ''args'')) (\<lambda>uploadLease.
     await (lift (getp leaseData ''asset'')) (\<lambda>asset.
     await (lift (getp asset ''asset_id'')) (\<lambda>assetId.
     await (fetch (download_request imageUrl)) (\<lambda>imageResponse.
       if \<not> ok imageResponse
       then throw (Error [Txt ''Failed to fetch image: '', Num (status imageResponse)])
       else
     await (lift (forEach_fields uploadLease)) (\<lambda>formFields.
     await (lift (getp uploadLease ''action'')) (\<lambda>action.
     await (fetch (storage_request action formFields (bytes imageResponse))) (\<lambda>uploadResponse.
       if \<not> ok uploadResponse then throw (Error [Txt uploadMsg, Num (status uploadResponse)])
       else ret (uploadLease, assetId))))))))))"

definition uploadMediaForGallery :: "jsval \<Rightarrow> string option \<Rightarrow> jsval io" where
  "uploadMediaForGallery imageUrl token =
     await (lease_upload ''Failed to get gallery upload lease: ''
              ''Failed to upload gallery image: '' imageUrl token)
       (\<lambda>(uploadLease, mediaId). ret mediaId)"

fun find_key :: "jsval list \<Rightarrow> exn + jsval" where
  \<comment> \<open>\<open>fields.find(f => f.name === 'key')\<close>\<close>
  "find_key [] = Inr JUndef"
| "find_key (f # fs) =
     (case getp f ''name'' of
        Inl e \<Rightarrow> Inl e
      | Inr n \<Rightarrow> if n = JStr ''key'' then Inr f else find_key fs)"

definition redditImageUrl :: "jsval \<Rightarrow> jstr" where
  "redditImageUrl uploadKey =
     Txt ''https://reddit-uploaded-media.s3-accelerate.amazonaws.com/'' # to_jstr uploadKey"

definition uploadImageToRedditAsset :: "jsval \<Rightarrow> string option \<Rightarrow> (jsval \<times> jstr) io" where
  \<comment> \<open>the value is \<open>(assetId, imageUrl)\<close>\<close>
  "uploadImageToRedditAsset imageUrl token =
     await (lease_upload ''Failed to get asset upload lease: '' ''Failed to upload image: ''
              imageUrl token)
       (\<lambda>(uploadLease, assetId).
     await (lift (find_key (elems (optp uploadLease ''fields'')))) (\<lambda>f.
       ret (assetId, redditImageUrl (optp f ''value''))))"

definition subreddit_of :: "string option \<Rightarrow> string" where
  \<comment> \<open>\<open>customSubreddit && customSubreddit.trim() ? customSubreddit.trim() : 'test'\<close>\<close>
  "subreddit_of customSubreddit =
     (case customSubreddit of
        None \<Rightarrow> ''test''
      | Some s \<Rightarrow> if s \<noteq> [] \<and> trim s \<noteq> [] then trim s else ''test'')"

definition submit_request :: "string option \<Rightarrow> (string \<times> jstr) list \<Rightarrow> request" where
  "submit_request token postData =
     \<lparr>meth = ''POST'', url = [Txt ''https://oauth.reddit.com/api/submit''],
      auth = bearer token, extra_headers = JUndef, body = FormUrl postData\<rparr>"

definition self_post :: "string \<Rightarrow> string \<Rightarrow> (string \<times> jstr) list" where
  "self_post subreddit c =
     [(''api_type'', [Txt ''json'']), (''kind'', [Txt ''self'']), (''sr'', [Txt subreddit]),
      (''title'', [Txt (take 300 c)]), (''text'', [Txt c])]"

definition image_post :: "string \<Rightarrow> string \<Rightarrow> jstr \<Rightarrow> (string \<times> jstr) list" where
  "image_post subreddit c imageUrl =
     [(''api_type'', [Txt ''json'']), (''kind'', [Txt ''image'']), (''sr'', [Txt subreddit]),
      (''title'', [Txt (take 300 c)]), (''url'', imageUrl)]"

definition gallery_item :: "jsval \<Rightarrow> jsval" where
  "gallery_item mediaId =
     JObj [(''caption'', JStr []), (''outbound_url'', JStr []), (''media_id'', mediaId)]"

definition gallery_post :: "string \<Rightarrow> string \<Rightarrow> jsval list \<Rightarrow> jsval" where
  "gallery_post subreddit c galleryItems =
     JObj [(''api_type'', JStr ''json''), (''items'', JArr galleryItems),
           (''nsfw'', JBool False), (''sendreplies'', JBool True),
           (''show_error_list'', JBool True), (''spoiler'', JBool False),
           (''sr'', JStr subreddit), (''title'', JStr (take 300 c)),
           (''kind'', JStr ''gallery'')]"

definition gallery_request :: "string option \<Rightarrow> jsval \<Rightarrow> request" where
  "gallery_request token postData =
     \<lparr>meth = ''POST'', url = [Txt ''https://oauth.reddit.com/api/submit_gallery_post''],
      auth = bearer token, extra_headers = JUndef, body = JsonBody postData\<rparr>"

fun gallery_loop :: "jsval list \<Rightarrow> string option \<Rightarrow> jsval list \<Rightarrow> jsval list io" where
  \<comment> \<open>\<open>for (const mediaItem of media)\<close>, the last argument being \<open>galleryItems\<close>\<close>
  "gallery_loop [] token galleryItems = ret galleryItems"
| "gallery_loop (mediaItem # rest) token galleryItems =
     await (lift (getp mediaItem ''cloudinaryUrl'')) (\<lambda>cloudinaryUrl.
     await (uploadMediaForGallery cloudinaryUrl token) (\<lambda>mediaId.
       gallery_loop rest token (galleryItems @ [gallery_item mediaId])))"

definition api_errors :: "jsval \<Rightarrow> bool" where
  \<comment> \<open>\<open>result.json?.errors && result.json.errors.length > 0\<close>, for \<open>j = result.json\<close>\<close>
  "api_errors j =
     (truthy (optp j ''errors'') \<and> gt0 (optp (optp j ''errors'') ''length''))"

definition check_errors :: "jsval \<Rightarrow> unit io" where
  "check_errors j =
     (if api_errors j then throw (Error [Txt ''Reddit API error: '', Json (optp j ''errors'')])
      else ret ())"

definition data_of :: "jsval \<Rightarrow> string \<Rightarrow> jsval" where
  \<comment> \<open>\<open>result.json?.data?.k\<close>, for \<open>j = result.json\<close>\<close>
  "data_of j k = optp (optp j ''data'') k"

definition or_empty :: "jsval \<Rightarrow> jstr option" where
  \<comment> \<open>\<open>v || ''\<close>\<close>
  "or_empty v = Some (to_jstr (js_or v (JStr [])))"

definition gallery_submit ::
  "string \<Rightarrow> string option \<Rightarrow> string option \<Rightarrow> jsval list \<Rightarrow> publish_result io" where
  \<comment> \<open>the gallery branch from \<open>postData = {...}\<close> on\<close>
  "gallery_submit c token customSubreddit galleryItems =
     await (fetch (gallery_request token
                     (gallery_post (subreddit_of customSubreddit) c galleryItems)))
       (\<lambda>response.
          if \<not> ok response
          then throw (Error [Txt ''Reddit gallery post failed: '', Num (status response)])
          else
     await (parse_json response) (\<lambda>result.
     await (lift (getp result ''json'')) (\<lambda>j.
     await (check_errors j) (\<lambda>u.
       if \<not> truthy (data_of j ''id'')
       then throw (Error [Txt ''Reddit post failed - no post ID returned''])
       else ret (succeeded (data_of j ''id'') (or_empty (data_of j ''url'')))))))"

definition gallery_branch ::
  "string \<Rightarrow> string option \<Rightarrow> jsval \<Rightarrow> string option \<Rightarrow> publish_result io" where
  \<comment> \<open>\<open>Array.isArray(media) && media.length > 1\<close>\<close>
  "gallery_branch c token m customSubreddit =
     await (gallery_loop (elems m) token []) (gallery_submit c token customSubreddit)"

definition image_submit ::
  "string \<Rightarrow> string option \<Rightarrow> string option \<Rightarrow> jstr \<Rightarrow> publish_result io" where
  \<comment> \<open>the single image branch from \<open>postData = {...}\<close> on\<close>
  "image_submit c token customSubreddit imageUrl =
     await (fetch (submit_request token (image_post (subreddit_of customSubreddit) c imageUrl)))
       (\<lambda>response.
          if \<not> ok response
          then throw (Error [Txt ''Reddit single image post failed: '', Num (status response)])
          else
     await (parse_json response) (\<lambda>result.
     await (lift (getp result ''json'')) (\<lambda>j.
     await (check_errors j) (\<lambda>u.
       if \<not> truthy (data_of j ''id'') \<and> \<not> truthy (data_of j ''user_submitted_page'')
       then throw (Error [Txt ''Reddit post failed - no post confirmation returned''])
       else ret (succeeded
                   (js_or (data_of j ''id'') (js_or (data_of j ''name'') (JStr ''unknown'')))
                   (or_empty (js_or (data_of j ''url'')
                                (data_of j ''user_submitted_page''))))))))"

definition image_branch ::
  "string \<Rightarrow> string option \<Rightarrow> jsval \<Rightarrow> string option \<Rightarrow> publish_result io" where
  \<comment> \<open>\<open>Array.isArray(media) && media.length === 1\<close>\<close>
  "image_branch c token m customSubreddit =
     await (lift (getp (hd (elems m)) ''cloudinaryUrl'')) (\<lambda>cloudinaryUrl.
     await (uploadImageToRedditAsset cloudinaryUrl token) (\<lambda>uploadResult.
       image_submit c token customSubreddit (snd uploadResult)))"

definition other_media_branch ::
  "string \<Rightarrow> string option \<Rightarrow> string option \<Rightarrow> publish_result io" where
  \<comment> \<open>the \<open>else\<close> after the two array cases: media that is present and is not an array of
      one or more items (the single object \<open>{hasMedia: true, ...}\<close>). The source comments
      it \<open>text-only post\<close>; it has neither of the two checks of the other branches.\<close>
  "other_media_branch c token customSubreddit =
     await (fetch (submit_request token (self_post (subreddit_of customSubreddit) c)))
       (\<lambda>response.
          if \<not> ok response
          then throw (Error [Txt ''Reddit post failed: '', Num (status response)])
          else
     await (parse_json response) (\<lambda>result.
     await (lift (getp result ''json'')) (\<lambda>j.
       ret (succeeded (js_or (data_of j ''id'') (JStr ''unknown''))
              (or_empty (data_of j ''url''))))))"

definition text_branch ::
  "string \<Rightarrow> string option \<Rightarrow> string option \<Rightarrow> publish_result io" where
  \<comment> \<open>no media: the outer \<open>else\<close>\<close>
  "text_branch c token customSubreddit =
     await (fetch (submit_request token (self_post (subreddit_of customSubreddit) c)))
       (\<lambda>response.
          if \<not> ok response
          then throw (Error [Txt ''Reddit post failed: '', Num (status response)])
          else
     await (parse_json response) (\<lambda>result.
     await (lift (getp result ''json'')) (\<lambda>j.
     await (check_errors j) (\<lambda>u.
       if \<not> truthy (data_of j ''id'')
       then throw (Error [Txt ''Reddit post failed - no post ID returned''])
       else ret (succeeded (data_of j ''id'') (or_empty (data_of j ''url'')))))))"

definition postToReddit_try ::
  "string \<Rightarrow> string option \<Rightarrow> jsval \<Rightarrow> account option \<Rightarrow> string option \<Rightarrow> publish_result io"
  where
  \<comment> \<open>the \<open>try\<close> block of \<open>postToReddit\<close>\<close>
  "postToReddit_try c token m userAccount customSubreddit =
     (if has_media m then
        (if isArray m \<and> length (elems m) > 1 then gallery_branch c token m customSubreddit
         else if isArray m \<and> length (elems m) = 1 then image_branch c token m customSubreddit
         else other_media_branch c token customSubreddit)
      else text_branch c token customSubreddit)"

definition postToReddit ::
  "string \<Rightarrow> string option \<Rightarrow> jsval \<Rightarrow> account option \<Rightarrow> string option \<Rightarrow> publish_result io"
  where
  "postToReddit c token m userAccount customSubreddit =
     try_catch (postToReddit_try c token m userAccount customSubreddit)
       (\<lambda>e. ret (failure e))"

section \<open>LinkedIn\<close>

definition register_request :: "string option \<Rightarrow> jstr \<Rightarrow> request" where
  "register_request token personUrn =
     \<lparr>meth = ''POST'', url = [Txt ''https://api.linkedin.com/v2/assets?action=registerUpload''],
      auth = bearer token, extra_headers = JUndef, body = RegisterUpload personUrn\<rparr>"

definition put_request :: "string option \<Rightarrow> jsval \<Rightarrow> jsval \<Rightarrow> buffer \<Rightarrow> request" where
  "put_request token upUrl uploadHeaders imageBuffer =
     \<lparr>meth = ''PUT'', url = to_jstr upUrl, auth = bearer token,
      extra_headers = uploadHeaders, body = Raw imageBuffer\<rparr>"

definition uploadImageToLinkedin :: "jsval \<Rightarrow> string option \<Rightarrow> jstr \<Rightarrow> jsval io" where
  \<comment> \<open>the \<open>catch\<close> of the source logs and rethrows\<close>
  "uploadImageToLinkedin imageUrl token personUrn =
     await (fetch (register_request token personUrn)) (\<lambda>registerResponse.
       if \<not> ok registerResponse
       then throw (Error [Txt ''Failed to register LinkedIn upload: '',
                          Num (status registerResponse), Txt '' - '',
                          Txt (rtext registerResponse)])
       else
     await (parse_json registerResponse) (\<lambda>registerResult.
     await (lift (getp registerResult ''value'')) (\<lambda>v.
     await (lift (getp v ''uploadMechanism'')) (\<lambda>mechanisms.
     await (lift (getp mechanisms
                    ''com.linkedin.digitalmedia.uploading.MediaUploadHttpRequest''))
       (\<lambda>uploadMechanism.
     await (lift (getp uploadMechanism ''uploadUrl'')) (\<lambda>upUrl.
       if \<not> truthy upUrl then throw (Error [Txt ''No upload URL received from LinkedIn''])
       else
     await (fetch (download_request imageUrl)) (\<lambda>imageResponse.
       if \<not> ok imageResponse
       then throw (Error [Txt ''Failed to fetch image: '', Num (status imageResponse)])
       else
     await (fetch (put_request token upUrl
                     (js_or (optp uploadMechanism ''headers'') (JObj []))
                     (bytes imageResponse)))
       (\<lambda>uploadResponse.
          if \<not> ok uploadResponse
          then throw (Error [Txt ''Failed to upload image to LinkedIn: '',
                             Num (status uploadResponse)])
          else ret (optp v ''asset'')))))))))"

fun linkedin_media_loop ::
  "jsval list \<Rightarrow> string option \<Rightarrow> jstr \<Rightarrow> jsval list \<Rightarrow> jsval list io" where
  \<comment> \<open>\<open>for (const mediaItem of imagesToUpload)\<close>, the last argument being \<open>assetUrns\<close>\<close>
  "linkedin_media_loop [] token personUrn assetUrns = ret assetUrns"
| "linkedin_media_loop (mediaItem # rest) token personUrn assetUrns =
     await (lift (getp mediaItem ''cloudinaryUrl'')) (\<lambda>cloudinaryUrl.
     await (uploadImageToLinkedin (js_or cloudinaryUrl (optp mediaItem ''url'')) token personUrn)
       (\<lambda>assetUrn. linkedin_media_loop rest token personUrn (assetUrns @ [assetUrn])))"

definition linkedin_assets ::
  "jsval \<Rightarrow> string option \<Rightarrow> jstr \<Rightarrow> jsval list option io" where
  \<comment> \<open>the media part of \<open>postToLinkedin\<close>: the assets of the share, \<open>None\<close> without media\<close>
  "linkedin_assets m token personUrn =
     (if has_media m then
        (if isArray m
         then await (linkedin_media_loop (take 4 (elems m)) token personUrn [])
                (\<lambda>assetUrns. ret (Some assetUrns))
         else await (uploadImageToLinkedin (js_or (optp m ''cloudinaryUrl'') (optp m ''url''))
                       token personUrn)
                (\<lambda>assetUrn. ret (Some [assetUrn])))
      else ret None)"

definition profile_request :: "string option \<Rightarrow> request" where
  "profile_request token =
     \<lparr>meth = ''GET'', url = [Txt ''https://api.linkedin.com/v2/userinfo''],
      auth = bearer token, extra_headers = JUndef, body = NoBody\<rparr>"

definition share_request :: "string option \<Rightarrow> jstr \<Rightarrow> string \<Rightarrow> jsval list option \<Rightarrow> request"
  where
  "share_request token personUrn c assets =
     \<lparr>meth = ''POST'', url = [Txt ''https://api.linkedin.com/v2/ugcPosts''],
      auth = bearer token, extra_headers = JUndef, body = Share personUrn c assets\<rparr>"

definition postToLinkedin_try :: "string \<Rightarrow> string option \<Rightarrow> jsval \<Rightarrow> publish_result io" where
  \<comment> \<open>the \<open>try\<close> block of \<open>postToLinkedin\<close>\<close>
  "postToLinkedin_try c token m =
     await (fetch (profile_request token)) (\<lambda>profileResponse.
       if \<not> ok profileResponse then throw (Error [Txt ''Failed to get LinkedIn profile''])
       else
     await (parse_json profileResponse) (\<lambda>profileData.
     await (lift (getp profileData ''sub'')) (\<lambda>sub.
     await (linkedin_assets m token (Txt ''urn:li:person:'' # to_jstr sub)) (\<lambda>assets.
     await (fetch (share_request token (Txt ''urn:li:person:'' # to_jstr sub) c assets))
       (\<lambda>postResponse.
          if \<not> ok postResponse
          then throw (Error [Txt ''LinkedIn API error: '', Num (status postResponse)])
          else
     await (parse_json postResponse) (\<lambda>postResult.
     await (lift (getp postResult ''id'')) (\<lambda>i.
       if truthy i then ret (succeeded i None)
       else await now (\<lambda>t.
              ret \<lparr>success = True, postId = Some [Txt ''linkedin_'', Num t],
                   post_url = None, error = None\<rparr>))))))))"

definition postToLinkedin :: "string \<Rightarrow> string option \<Rightarrow> jsval \<Rightarrow> publish_result io" where
  "postToLinkedin c token m =
     try_catch (postToLinkedin_try c token m) (\<lambda>e. ret (failure e))"

section \<open>The batch orchestrator\<close>

definition db_write :: "(world \<Rightarrow> world) \<Rightarrow> unit io" where
  \<comment> \<open>a write to the store: it takes effect unless the store rejects it\<close>
  "db_write f w =
     (case db_faults w of
        [] \<Rightarrow> (Inr (), f w)
      | None # fs \<Rightarrow> (Inr (), f (w\<lparr>db_faults := fs\<rparr>))
      | Some e # fs \<Rightarrow> (Inl e, w\<lparr>db_faults := fs\<rparr>))"

definition save :: "post \<Rightarrow> unit io" where
  \<comment> \<open>\<open>await post.save()\<close>\<close>
  "save p = db_write (\<lambda>w. w\<lparr>saved := (saved w)(pid p \<mapsto> p)\<rparr>)"

definition inc_postsCount :: "nat \<Rightarrow> unit io" where
  \<comment> \<open>\<open>await User.findByIdAndUpdate(user._id, {$inc: {postsCount: 1}})\<close>\<close>
  "inc_postsCount u = db_write (\<lambda>w. w\<lparr>postsCount := (postsCount w)(u := postsCount w u + 1)\<rparr>)"

definition invoke :: "string \<Rightarrow> 'a io \<Rightarrow> 'a io" where
  \<comment> \<open>a call of a publisher, logged\<close>
  "invoke name m w = m (w\<lparr>invoked := invoked w @ [name]\<rparr>)"

definition race :: "'a io \<Rightarrow> 'a io" where
  \<comment> \<open>\<open>Promise.race([m, timer])\<close>: when the timer fires first the race rejects; the
      publisher still runs\<close>
  "race m w =
     (case races w of
        [] \<Rightarrow> m w
      | b # bs \<Rightarrow>
          (case m (w\<lparr>races := bs\<rparr>) of
             (r, w') \<Rightarrow> if b then (Inl (Error [Txt ''Twitter API timeout'']), w') else (r, w')))"

definition not_ready :: "string \<Rightarrow> string \<Rightarrow> string \<times> publish_result" where
  \<comment> \<open>\<open>{platform, success: false, error: `${platform} account ...`}\<close>\<close>
  "not_ready platform what =
     (platform, \<lparr>success = False, postId = None, post_url = None,
                 error = Some [Txt (platform @ what)]\<rparr>)"

definition publish :: "post \<Rightarrow> string \<Rightarrow> account \<Rightarrow> publish_result io" where
  \<comment> \<open>the \<open>switch (platform)\<close>\<close>
  "publish p platform account =
     (if platform = ''twitter''
      then race (invoke ''twitter''
                   (postToTwitter (content p) (accessToken account) (media p) (Some account)))
      else if platform = ''linkedin''
      then invoke ''linkedin'' (postToLinkedin (content p) (accessToken account) (media p))
      else if platform = ''reddit''
      then invoke ''reddit''
             (postToReddit (content p) (accessToken account) (media p) (Some account)
                (Some ''test''))
      else ret \<lparr>success = False, postId = None, post_url = None,
                error = Some [Txt ''unsupported platform'']\<rparr>)"

definition platform_task :: "post \<Rightarrow> string \<Rightarrow> (string \<times> publish_result) io" where
  \<comment> \<open>the \<open>async (platform) => ...\<close> mapped over \<open>post.platforms\<close>. It begins by
      reading \<open>user._id\<close> for the log, outside any \<open>try\<close>: without an owner the task is
      rejected.\<close>
  "platform_task p platform =
     (case userId p of
        None \<Rightarrow> throw (TypeError ''_id'')
      | Some user \<Rightarrow>
          (case connectedAccounts user platform of
             None \<Rightarrow> ret (not_ready platform '' account not found'')
           | Some account \<Rightarrow>
               if \<not> connected account
               then ret (not_ready platform '' account not connected'')
               else if falsy_str (accessToken account)
               then ret (not_ready platform '' account missing access token'')
               else await (try_catch (publish p platform account) (\<lambda>e. ret (failure e)))
                      (\<lambda>result. ret (platform, result))))"

fun allSettled ::
  "(string \<Rightarrow> 'a io) \<Rightarrow> string list \<Rightarrow> world \<Rightarrow> (exn + 'a) list \<times> world" where
  \<comment> \<open>\<open>await Promise.allSettled(post.platforms.map(task))\<close>. The tasks of a post run
      concurrently; here one runs after the other, which gives each task the outcomes
      \<open>net\<close> holds for it in that order.\<close>
  "allSettled task [] w = ([], w)"
| "allSettled task (platform # rest) w =
     (case task platform w of
        (r, w') \<Rightarrow> (case allSettled task rest w' of (rs, w'') \<Rightarrow> (r # rs, w'')))"

definition settled_value :: "exn + string \<times> publish_result \<Rightarrow> string \<times> publish_result" where
  \<comment> \<open>what \<open>platformResults.forEach\<close> pushes onto \<open>results\<close>\<close>
  "settled_value r =
     (case r of
        Inr v \<Rightarrow> v
      | Inl reason \<Rightarrow>
          (''unknown'',
           \<lparr>success = False, postId = None, post_url = None,
            error = Some (if message reason = [] then [Txt ''Platform processing failed'']
                          else message reason)\<rparr>))"

definition any_success :: "(exn + string \<times> publish_result) list \<Rightarrow> bool" where
  \<comment> \<open>\<open>hasSuccess\<close> after the \<open>forEach\<close>\<close>
  "any_success settled =
     list_ex (\<lambda>r. case r of Inr v \<Rightarrow> success (snd v) | Inl reason \<Rightarrow> False) settled"

definition record_result ::
  "string \<times> publish_result \<Rightarrow> (string \<rightharpoonup> platform_result) \<Rightarrow> (string \<rightharpoonup> platform_result)" where
  \<comment> \<open>\<open>post.platformResults[result.platform] = {success, postId, error}\<close>\<close>
  "record_result r table =
     table(fst r \<mapsto> \<lparr>pr_success = success (snd r), pr_postId = postId (snd r),
                      pr_error = error (snd r)\<rparr>)"

definition attempts :: "post \<Rightarrow> world \<Rightarrow> (exn + string \<times> publish_result) list \<times> world" where
  "attempts p = allSettled (platform_task p) (platforms p)"

datatype outcome =
    Processed post bool   \<comment> \<open>the \<open>try\<close> block ran to its end, with this \<open>hasSuccess\<close>\<close>
  | ErrorProcessing post  \<comment> \<open>it threw, and the \<open>catch\<close> block ran\<close>

fun final_post :: "outcome \<Rightarrow> post" where
  "final_post (Processed p b) = p"
| "final_post (ErrorProcessing p) = p"

fun counted :: "outcome \<Rightarrow> bool" where
  \<comment> \<open>whether \<open>processedCount++\<close> ran\<close>
  "counted (Processed p b) = b"
| "counted (ErrorProcessing p) = False"

definition updated :: "post \<Rightarrow> (exn + string \<times> publish_result) list \<Rightarrow> nat option \<Rightarrow> post" where
  \<comment> \<open>the post after the assignments that precede \<open>post.save()\<close>\<close>
  "updated p settled t =
     p\<lparr>platformResults := fold record_result (map settled_value settled) Map.empty,
       pstatus := (if any_success settled then published else failed),
       publishedAt := t\<rparr>"

definition persist :: "post \<Rightarrow> bool \<Rightarrow> unit io" where
  \<comment> \<open>\<open>post.save()\<close>, then the owner's counter when \<open>hasSuccess\<close>\<close>
  "persist p hasSuccess =
     await (save p) (\<lambda>u.
       if hasSuccess
       then (case userId p of
               None \<Rightarrow> throw (TypeError ''_id'')
             | Some user \<Rightarrow> inc_postsCount (uid user))
       else ret ())"

definition recover :: "post \<Rightarrow> exn \<Rightarrow> world \<Rightarrow> outcome \<times> world" where
  \<comment> \<open>the \<open>catch\<close> block: mark the post failed; a failure of this write is only logged\<close>
  "recover p e w =
     (case save (p\<lparr>pstatus := failed, errorMessage := Some (message e)\<rparr>) w of
        (r, w') \<Rightarrow> (ErrorProcessing (p\<lparr>pstatus := failed, errorMessage := Some (message e)\<rparr>), w'))"

definition process_post :: "post \<Rightarrow> world \<Rightarrow> outcome \<times> world" where
  \<comment> \<open>the body of \<open>for (const post of duePosts)\<close> after the time check\<close>
  "process_post p w =
     (case attempts p w of
        (settled, w1) \<Rightarrow>
          (case (if any_success settled
                 then (case Date_now w1 of (t, w2) \<Rightarrow> (Some t, w2))
                 else (None, w1)) of
             (t, w2) \<Rightarrow>
               (case persist (updated p settled t) (any_success settled) w2 of
                  (Inr u, w3) \<Rightarrow> (Processed (updated p settled t) (any_success settled), w3)
                | (Inl e, w3) \<Rightarrow> recover (updated p settled t) e w3)))"

definition MAX_EXECUTION_TIME :: nat where
  "MAX_EXECUTION_TIME = 8000"

fun process_loop ::
  "nat \<Rightarrow> post list \<Rightarrow> nat \<Rightarrow> world \<Rightarrow> (nat \<times> outcome list) \<times> world" where
  \<comment> \<open>\<open>for (const post of duePosts)\<close>, from \<open>startTime\<close> and \<open>processedCount\<close>: the
      final count, with the outcomes of the posts reached before the time limit\<close>
  "process_loop startTime [] processedCount w = ((processedCount, []), w)"
| "process_loop startTime (p # rest) processedCount w =
     (case Date_now w of
        (t, w1) \<Rightarrow>
          if int t - int startTime > int MAX_EXECUTION_TIME - 2000
          then ((processedCount, []), w1)
          else (case process_post p w1 of
                  (out, w2) \<Rightarrow>
                    (case process_loop startTime rest
                            (if counted out then processedCount + 1 else processedCount) w2 of
                       ((n, outs), w3) \<Rightarrow> ((n, out # outs), w3))))"

record run_result =
  processed :: nat
  run_message :: jstr

definition run_posts :: "post list \<Rightarrow> nat \<Rightarrow> world \<Rightarrow> (run_result \<times> outcome list) \<times> world" where
  \<comment> \<open>\<open>processScheduledPosts\<close> from the answer of the query on\<close>
  "run_posts duePosts startTime w =
     (if duePosts = []
      then ((\<lparr>processed = 0, run_message = [Txt ''No posts to process'']\<rparr>, []), w)
      else (case process_loop startTime duePosts 0 w of
              ((n, outs), w') \<Rightarrow>
                ((\<lparr>processed = n,
                   run_message = [Txt ''Processed '', Num n, Txt '' posts'']\<rparr>, outs), w')))"

definition processScheduledPosts :: "(run_result \<times> outcome list) io" where
  \<comment> \<open>the value is what the function returns, with the outcomes of the posts it reached;
      the outer \<open>catch\<close> logs and rethrows\<close>
  "processScheduledPosts w =
     (case Date_now w of
        (startTime, w1) \<Rightarrow>
          (case db_connect w1 of
             Some e \<Rightarrow> (Inl e, w1)
           | None \<Rightarrow>
               (case Date_now w1 of
                  (t, w2) \<Rightarrow>
                    (case due w2 of
                       Inl e \<Rightarrow> (Inl e, w2)
                     | Inr duePosts \<Rightarrow>
                         (case run_posts duePosts startTime w2 of
                            (r, w3) \<Rightarrow> (Inr r, w3))))))"

datatype http_response =
    Ok200 jstr nat     \<comment> \<open>\<open>{success: true, message, processed, ...}\<close>\<close>
  | Error500 jstr      \<comment> \<open>\<open>{success: false, error: 'Internal server error', details, ...}\<close>\<close>

definition respond :: "exn + run_result \<Rightarrow> http_response" where
  \<comment> \<open>what the endpoint sends once the run settles, unless its 9 second timer has already
      answered 408: \<open>message: result.message || '...'\<close>, \<open>processed: result.processed || 0\<close>\<close>
  "respond r =
     (case r of
        Inr result \<Rightarrow> Ok200 (run_message result) (processed result)
      | Inl e \<Rightarrow> Error500 (message e))"

section \<open>Notions used in the statements\<close>

definition only_success :: "publish_result io \<Rightarrow> bool" where
  \<comment> \<open>whatever the computation returns without throwing reports success\<close>
  "only_success m = (\<forall>w r w'. m w = (Inr r, w') \<longrightarrow> success r)"

definition frame :: "world \<Rightarrow> world \<Rightarrow> bool" where
  \<comment> \<open>the second world differs from the first in the network, the log of requests and
      the clock at most\<close>
  "frame w w' =
     (invoked w' = invoked w \<and> races w' = races w \<and> db_faults w' = db_faults w \<and>
      db_connect w' = db_connect w \<and> due w' = due w \<and>
      saved w' = saved w \<and> postsCount w' = postsCount w \<and>
      TWITTER_API_KEY w' = TWITTER_API_KEY w \<and> TWITTER_API_SECRET w' = TWITTER_API_SECRET w)"

definition network_only :: "'a io \<Rightarrow> bool" where
  "network_only m = (\<forall>w r w'. m w = (r, w') \<longrightarrow> frame w w')"

definition idle :: world where
  \<comment> \<open>a world with no network, an empty store and the application keys configured\<close>
  "idle = \<lparr>net = [], sent = [], clock = [], races = [], db_connect = None, due = Inr [],
           db_faults = [], invoked = [], saved = Map.empty, postsCount = (\<lambda>u. 0),
           TWITTER_API_KEY = Some ''key'', TWITTER_API_SECRET = Some ''secret''\<rparr>"

definition reply :: "jsval \<Rightarrow> response" where
  \<comment> \<open>a 200 response with this JSON body\<close>
  "reply v = \<lparr>status = 200, rtext = [], json = Some v, bytes = []\<rparr>"

definition answer :: "jsval \<Rightarrow> exn + response" where
  "answer v = Inr (reply v)"

definition ready :: "post \<Rightarrow> string \<Rightarrow> bool" where
  \<comment> \<open>the owner's account for the platform passes the three checks of the orchestrator\<close>
  "ready p platform =
     (case userId p of
        None \<Rightarrow> False
      | Some user \<Rightarrow>
          (case connectedAccounts user platform of
             None \<Rightarrow> False
           | Some a \<Rightarrow> connected a \<and> \<not> falsy_str (accessToken a)))"

definition rejected :: "nat \<Rightarrow> world \<Rightarrow> nat" where
  \<comment> \<open>how many of the next \<open>n\<close> writes to the store the store rejects\<close>
  "rejected n w = length (filter (\<lambda>f. f \<noteq> None) (take n (db_faults w)))"

text \<open>Sample data for the concrete instances below.\<close>

definition linked :: account where
  "linked = \<lparr>connected = True, accessToken = Some ''token'', oauth1aAccessToken = None,
             oauth1aAccessTokenSecret = None\<rparr>"

definition unlinked :: account where
  "unlinked = \<lparr>connected = False, accessToken = None, oauth1aAccessToken = None,
               oauth1aAccessTokenSecret = None\<rparr>"

definition alice :: user where
  "alice = \<lparr>uid = 7, connectedAccounts = [''twitter'' \<mapsto> linked, ''reddit'' \<mapsto> linked]\<rparr>"

definition bob :: user where
  "bob = \<lparr>uid = 8, connectedAccounts = [''twitter'' \<mapsto> unlinked]\<rparr>"

definition draft :: "nat \<Rightarrow> user \<Rightarrow> string list \<Rightarrow> post" where
  \<comment> \<open>a scheduled post without media\<close>
  "draft i u ps =
     \<lparr>pid = i, userId = Some u, content = ''hello'', platforms = ps,
      media = JObj [(''hasMedia'', JBool False)], pstatus = scheduled, publishedAt = None,
      errorMessage = None, platformResults = Map.empty\<rparr>"

definition tweeted :: "exn + response" where
  "tweeted = answer (JObj [(''data'', JObj [(''id'', JStr ''1'')])])"

definition submitted :: "exn + response" where
  "submitted =
     answer (JObj [(''json'', JObj [(''errors'', JArr []),
                                   (''data'', JObj [(''id'', JStr ''t3_a'')])])])"

definition refused :: "post \<Rightarrow> string \<Rightarrow> string \<Rightarrow> world \<Rightarrow> bool" where
  \<comment> \<open>the platform's attempt is answered with the failure \<open>`${platform}${what}`\<close> and
      leaves the world as it is; the post ends with that failure filed under the platform
      when it requests it; and the platform's publisher is not called while the post is
      processed\<close>
  "refused p platform what w =
     (platform_task p platform w =
        (Inr (platform, \<lparr>success = False, postId = None, post_url = None,
                          error = Some [Txt (platform @ what)]\<rparr>), w) \<and>
      (platform \<in> set (platforms p) \<longrightarrow>
         platformResults (final_post (fst (process_post p w))) platform =
           Some \<lparr>pr_success = False, pr_postId = None,
                 pr_error = Some [Txt (platform @ what)]\<rparr>) \<and>
      (\<exists>new. invoked (snd (process_post p w)) = invoked w @ new \<and> platform \<notin> set new))"

definition partly_online :: world where
  \<comment> \<open>Twitter accepts the tweet, the call to Reddit fails; the clock reads 1000\<close>
  "partly_online = idle\<lparr>net := [tweeted, Inl (Error [Txt ''socket hang up''])], clock := [1000]\<rparr>"

definition online :: world where
  \<comment> \<open>Twitter accepts the tweet and Reddit the submission; the clock reads 1000\<close>
  "online = idle\<lparr>net := [tweeted, submitted], clock := [1000]\<rparr>"

definition bobs_post :: post where
  \<comment> \<open>Bob's post for Twitter once handled: his Twitter account is not connected\<close>
  "bobs_post =
     (draft 2 bob [''twitter''])
       \<lparr>pstatus := failed,
        platformResults :=
          [''twitter'' \<mapsto> \<lparr>pr_success = False, pr_postId = None,
                           pr_error = Some [Txt ''twitter account not connected'']\<rparr>]\<rparr>"

definition orphan :: post where
  \<comment> \<open>a scheduled post whose owner's document is gone: \<open>populate\<close> leaves \<open>null\<close>\<close>
  "orphan =
     \<lparr>pid = 3, userId = None, content = ''hello'', platforms = [''twitter''],
      media = JObj [(''hasMedia'', JBool False)], pstatus = scheduled, publishedAt = None,
      errorMessage = None, platformResults = Map.empty\<rparr>"

definition store_down :: exn where
  "store_down = Error [Txt ''store unreachable'']"

definition count_rejected :: world where
  \<comment> \<open>Twitter accepts the tweet; the store accepts the post, then rejects the update of
      the counter; the clock reads 1000\<close>
  "count_rejected =
     idle\<lparr>net := [tweeted], clock := [1000], db_faults := [None, Some store_down]\<rparr>"

definition twice_rejected :: world where
  \<comment> \<open>as before, and the store also rejects the write that marks the post failed\<close>
  "twice_rejected =
     idle\<lparr>net := [tweeted], clock := [1000],
          db_faults := [None, Some store_down, Some store_down]\<rparr>"

definition tweeted_post :: post where
  \<comment> \<open>Alice's post for Twitter once the tweet has been accepted at 1000\<close>
  "tweeted_post =
     (draft 1 alice [''twitter''])
       \<lparr>pstatus := published, publishedAt := Some 1000,
        platformResults :=
          [''twitter'' \<mapsto> \<lparr>pr_success = True, pr_postId = Some [Txt ''1''],
                           pr_error = None\<rparr>]\<rparr>"

definition lost_run :: world where
  \<comment> \<open>a run with that one post due, in which the store rejects the update of the counter\<close>
  "lost_run =
     idle\<lparr>due := Inr [draft 1 alice [''twitter'']], net := [tweeted],
          clock := [0, 1, 2, 1000], db_faults := [None, Some store_down]\<rparr>"

definition mixed_run :: world where
  \<comment> \<open>a run with two posts due: Alice's, which Twitter accepts, and Bob's, whose Twitter
      account is not connected\<close>
  "mixed_run =
     idle\<lparr>due := Inr [draft 1 alice [''twitter''], draft 2 bob [''twitter'']],
          net := [tweeted], clock := [0, 1, 2, 1000, 1001]\<rparr>"

definition fine :: "exn + response" where
  \<comment> \<open>a 200 response without a JSON body worth reading\<close>
  "fine = answer JNull"

definition leased :: "string \<Rightarrow> string \<Rightarrow> exn + response" where
  \<comment> \<open>Reddit grants a lease: the storage key and the asset identifier\<close>
  "leased k aid =
     answer (JObj [(''args'', JObj [(''action'', JStr ''//reddit-uploaded-media.s3/''),
                                   (''fields'', JArr [JObj [(''name'', JStr ''key''),
                                                            (''value'', JStr k)]])]),
                   (''asset'', JObj [(''asset_id'', JStr aid)])])"

definition picture :: "string \<Rightarrow> jsval" where
  "picture u = JObj [(''cloudinaryUrl'', JStr u)]"

definition page_only :: "exn + response" where
  \<comment> \<open>Reddit's answer to an image submission: no errors, no \<open>id\<close>, no \<open>name\<close>, the page
      of the user's submissions\<close>
  "page_only =
     answer (JObj [(''json'',
                    JObj [(''errors'', JArr []),
                          (''data'', JObj [(''user_submitted_page'',
                                            JStr ''https://www.reddit.com/user/a/submitted/'')])])])"

definition rate_limited :: "exn + response" where
  \<comment> \<open>Reddit's answer carrying an error array\<close>
  "rate_limited =
     answer (JObj [(''json'', JObj [(''errors'', JArr [JArr [JStr ''RATELIMIT'']])])])"

section \<open>Sequencing and exceptions\<close>

lemma await_ret [simp]: "await (ret a) f = f a"
  by (rule ext) (simp add: await_def ret_def)

lemma await_throw [simp]: "await (throw e) f = throw e"
  by (rule ext) (simp add: await_def throw_def)

lemma await_lift_Inr [simp]: "await (lift (Inr a)) f = f a"
  by (rule ext) (simp add: await_def lift_def)

lemma await_lift_Inl [simp]: "await (lift (Inl e)) f = throw e"
  by (rule ext) (simp add: await_def lift_def throw_def)

lemmas io_defs = await_def ret_def throw_def lift_def try_catch_def fetch_def parse_json_def

lemma try_catch_Inl:
  "m w = (Inl e, w') \<Longrightarrow> try_catch m (\<lambda>e. ret (failure e)) w = (Inr (failure e), w')"
  by (simp add: try_catch_def ret_def)

lemma try_catch_Inr:
  "m w = (Inr r, w') \<Longrightarrow> try_catch m h w = (Inr r, w')"
  by (simp add: try_catch_def)

lemma os_await: "(\<And>a. only_success (f a)) \<Longrightarrow> only_success (await m f)"
  by (auto simp: only_success_def await_def split: prod.splits sum.splits)

lemma os_throw: "only_success (throw e)"
  by (simp add: only_success_def throw_def)

lemma os_ret: "success r \<Longrightarrow> only_success (ret r)"
  by (simp add: only_success_def ret_def)

lemma os_succeeded: "only_success (ret (succeeded i u))"
  by (simp add: os_ret succeeded_def)

lemma os_if: "only_success a \<Longrightarrow> only_success b \<Longrightarrow> only_success (if c then a else b)"
  by simp

lemma os_case_option:
  "only_success a \<Longrightarrow> (\<And>x. only_success (f x)) \<Longrightarrow>
   only_success (case t of None \<Rightarrow> a | Some x \<Rightarrow> f x)"
  by (cases t) auto

lemmas os_intros = os_await os_throw os_succeeded os_if os_case_option

lemma os_twitter: "only_success (postToTwitter_try c token m ua)"
  unfolding postToTwitter_try_def by (intro os_intros)

lemma os_gallery_submit: "only_success (gallery_submit c token sub items)"
  unfolding gallery_submit_def by (intro os_intros)

lemma os_image_submit: "only_success (image_submit c token sub u)"
  unfolding image_submit_def by (intro os_intros)

lemma os_reddit: "only_success (postToReddit_try c token m ua sub)"
  unfolding postToReddit_try_def gallery_branch_def image_branch_def other_media_branch_def
    text_branch_def
  by (intro os_intros os_gallery_submit os_image_submit)

lemma os_linkedin: "only_success (postToLinkedin_try c token m)"
  unfolding postToLinkedin_try_def by (intro os_intros os_ret) simp

lemma caught:
  assumes "only_success m"
  shows "\<exists>r w'. try_catch m (\<lambda>e. ret (failure e)) w = (Inr r, w') \<and>
           (success r \<or> (\<exists>e. m w = (Inl e, w') \<and> r = failure e))"
proof (cases "m w")
  case (Pair x w')
  show ?thesis
  proof (cases x)
    case (Inl e)
    with Pair show ?thesis by (simp add: try_catch_def ret_def)
  next
    case (Inr r)
    with Pair assms have "success r" by (auto simp: only_success_def)
    with Pair Inr show ?thesis by (simp add: try_catch_def)
  qed
qed

lemma fetch_idle:
  "fetch req idle = (Inl (Error [Txt ''fetch failed'']), idle\<lparr>sent := [req]\<rparr>)"
  by (simp add: fetch_def idle_def)

section \<open>The publishers never throw\<close>

lemma caught_all:
  assumes "only_success m"
  shows "(\<exists>r w'. try_catch m (\<lambda>e. ret (failure e)) w = (Inr r, w')) \<and>
         (\<forall>e w'. m w = (Inl e, w') \<longrightarrow>
            try_catch m (\<lambda>e. ret (failure e)) w =
              (Inr \<lparr>success = False, postId = None, post_url = None,
                    error = Some (message e)\<rparr>, w')) \<and>
         (\<forall>r w'. m w = (Inr r, w') \<longrightarrow>
            success r \<and> try_catch m (\<lambda>e. ret (failure e)) w = (Inr r, w'))"
proof (intro conjI allI impI)
  show "\<exists>r w'. try_catch m (\<lambda>e. ret (failure e)) w = (Inr r, w')"
    using caught [OF assms, of w] by blast
next
  fix e w' assume "m w = (Inl e, w')"
  then show "try_catch m (\<lambda>e. ret (failure e)) w =
      (Inr \<lparr>success = False, postId = None, post_url = None, error = Some (message e)\<rparr>, w')"
    by (simp add: try_catch_def ret_def failure_def)
next
  fix r w' assume m: "m w = (Inr r, w')"
  with assms show "success r" by (auto simp: only_success_def)
  from m show "try_catch m (\<lambda>e. ret (failure e)) w = (Inr r, w')"
    by (simp add: try_catch_def)
qed

text \<open>
  Claim C5. Whatever the content, the access token, the media, the account and the
  outside world, each of \<open>postToTwitter\<close>, \<open>postToReddit\<close> and \<open>postToLinkedin\<close>
  returns a value and never throws. Whenever its \<open>try\<close> block throws an exception \<open>e\<close>
  (a rejected \<open>fetch\<close>, an HTTP status that is not 2xx, a body that does not parse or
  lacks what is read from it), the publisher returns
  \<open>{success: false, error: e.message}\<close>, in the world the exception left. Whenever the
  \<open>try\<close> block returns, its value reports success and is what the publisher returns.
\<close>

theorem publishers_never_throw:
  "((\<exists>r w'. postToTwitter c token m ua w = (Inr r, w')) \<and>
    (\<forall>e w'. postToTwitter_try c token m ua w = (Inl e, w') \<longrightarrow>
       postToTwitter c token m ua w =
         (Inr \<lparr>success = False, postId = None, post_url = None,
               error = Some (message e)\<rparr>, w')) \<and>
    (\<forall>r w'. postToTwitter_try c token m ua w = (Inr r, w') \<longrightarrow>
       success r \<and> postToTwitter c token m ua w = (Inr r, w'))) \<and>
   ((\<exists>r w'. postToReddit c token m ua sub w = (Inr r, w')) \<and>
    (\<forall>e w'. postToReddit_try c token m ua sub w = (Inl e, w') \<longrightarrow>
       postToReddit c token m ua sub w =
         (Inr \<lparr>success = False, postId = None, post_url = None,
               error = Some (message e)\<rparr>, w')) \<and>
    (\<forall>r w'. postToReddit_try c token m ua sub w = (Inr r, w') \<longrightarrow>
       success r \<and> postToReddit c token m ua sub w = (Inr r, w'))) \<and>
   ((\<exists>r w'. postToLinkedin c token m w = (Inr r, w')) \<and>
    (\<forall>e w'. postToLinkedin_try c token m w = (Inl e, w') \<longrightarrow>
       postToLinkedin c token m w =
         (Inr \<lparr>success = False, postId = None, post_url = None,
               error = Some (message e)\<rparr>, w')) \<and>
    (\<forall>r w'. postToLinkedin_try c token m w = (Inr r, w') \<longrightarrow>
       success r \<and> postToLinkedin c token m w = (Inr r, w')))"
  unfolding postToTwitter_def postToReddit_def postToLinkedin_def
  by (intro conjI caught_all [THEN conjunct1] caught_all [THEN conjunct2, THEN conjunct1]
      caught_all [THEN conjunct2, THEN conjunct2] os_twitter os_reddit os_linkedin)

theorem publishers_never_throw_witness:
  "postToTwitter_try ''hello'' (Some ''token'') JNull None idle =
     (Inl (Error [Txt ''fetch failed'']),
      idle\<lparr>sent := [tweet_request ''token'' (text_only ''hello'')]\<rparr>) \<and>
   postToTwitter ''hello'' (Some ''token'') JNull None idle =
     (Inr \<lparr>success = False, postId = None, post_url = None,
           error = Some [Txt ''fetch failed'']\<rparr>,
      idle\<lparr>sent := [tweet_request ''token'' (text_only ''hello'')]\<rparr>) \<and>
   postToReddit_try ''hello'' (Some ''token'') JNull None (Some ''test'') idle =
     (Inl (Error [Txt ''fetch failed'']),
      idle\<lparr>sent := [submit_request (Some ''token'') (self_post ''test'' ''hello'')]\<rparr>) \<and>
   postToReddit ''hello'' (Some ''token'') JNull None (Some ''test'') idle =
     (Inr \<lparr>success = False, postId = None, post_url = None,
           error = Some [Txt ''fetch failed'']\<rparr>,
      idle\<lparr>sent := [submit_request (Some ''token'') (self_post ''test'' ''hello'')]\<rparr>) \<and>
   postToLinkedin_try ''hello'' (Some ''token'') JNull idle =
     (Inl (Error [Txt ''fetch failed'']),
      idle\<lparr>sent := [profile_request (Some ''token'')]\<rparr>) \<and>
   postToLinkedin ''hello'' (Some ''token'') JNull idle =
     (Inr \<lparr>success = False, postId = None, post_url = None,
           error = Some [Txt ''fetch failed'']\<rparr>,
      idle\<lparr>sent := [profile_request (Some ''token'')]\<rparr>) \<and>
   fst (postToTwitter ''hello'' (Some ''token'') JNull None
          (idle\<lparr>net := [Inr \<lparr>status = 401, rtext = ''Unauthorized'', json = None,
                                  bytes = []\<rparr>]\<rparr>)) =
     Inr \<lparr>success = False, postId = None, post_url = None,
          error = Some [Txt ''Twitter API error: '', Num 401, Txt '' - '',
                        Txt ''Unauthorized'']\<rparr> \<and>
   fst (postToReddit ''hello'' (Some ''token'') JNull None (Some ''test'')
          (idle\<lparr>net := [Inr \<lparr>status = 200, rtext = ''<html>'', json = None,
                                  bytes = []\<rparr>]\<rparr>)) =
     Inr \<lparr>success = False, postId = None, post_url = None,
          error = Some (message SyntaxError)\<rparr>"
  using publishers_never_throw [of "''hello''" "Some ''token''" JNull None idle "Some ''test''"]
  by (simp add: idle_def ok_def parse_json_def throw_def fetch_def postToTwitter_def postToTwitter_try_def tweet_data_def has_media_def
      postToReddit_def postToReddit_try_def text_branch_def subreddit_of_def trim_def
      is_space_def postToLinkedin_def postToLinkedin_try_def
      fetch_idle try_catch_def await_def ret_def failure_def)

section \<open>Twitter: media without the OAuth 1.0a pair\<close>

lemma tweet_data_skipped:
  "has_media m \<Longrightarrow> oauth1a_pair ua = None \<Longrightarrow> tweet_data c m ua = ret (text_only c)"
  by (simp add: tweet_data_def)

lemma tweet_data_null: "tweet_data c JNull ua = ret (text_only c)"
  by (simp add: tweet_data_def has_media_def)

lemma text_only_sent:
  "tok \<noteq> [] \<Longrightarrow>
   sent (snd (postToTwitter c (Some tok) JNull ua w)) =
     sent w @ [tweet_request tok (text_only c)]"
  unfolding postToTwitter_def postToTwitter_try_def tweet_data_null
  by (cases "net w") (auto simp: io_defs split: sum.splits option.splits list.splits)

text \<open>
  Claim C8. Let media be requested (\<open>has_media\<close>) and the account lack the OAuth 1.0a
  pair (no account, or \<open>oauth1aAccessToken\<close> or \<open>oauth1aAccessTokenSecret\<close> missing or
  empty), the bearer token being present as the orchestrator ensures. Then
  \<open>postToTwitter\<close> does exactly what it does for the same tweet without media: the
  missing pair raises no error. It sends one request and no other: a \<open>POST\<close> to
  \<open>https://api.twitter.com/2/tweets\<close> under the bearer token, whose payload is the JSON
  \<open>{text: content}\<close> with no media reference; no upload is attempted. And when Twitter
  accepts that request (a 2xx answer whose body is a JSON object), the result is a
  success.
\<close>

theorem twitter_text_only_without_oauth1a:
  assumes "has_media m" and "oauth1a_pair ua = None" and "tok \<noteq> []"
  shows "postToTwitter c (Some tok) m ua w = postToTwitter c (Some tok) JNull ua w \<and>
         sent (snd (postToTwitter c (Some tok) m ua w)) =
           sent w @ [\<lparr>meth = ''POST'', url = [Txt ''https://api.twitter.com/2/tweets''],
                      auth = Bearer tok, extra_headers = JUndef,
                      body = JsonBody (JObj [(''text'', JStr c)])\<rparr>] \<and>
         (\<forall>resp rest data d.
            net w = Inr resp # rest \<and> ok resp \<and> json resp = Some data \<and>
            getp data ''data'' = Inr d \<longrightarrow>
            fst (postToTwitter c (Some tok) m ua w) =
              Inr \<lparr>success = True,
                   postId = Some (to_jstr (js_or (optp d ''id'') (JStr ''unknown''))),
                   post_url = None, error = None\<rparr>)"
proof (intro conjI allI impI)
  show same: "postToTwitter c (Some tok) m ua w = postToTwitter c (Some tok) JNull ua w"
    using assms
    by (simp add: postToTwitter_def postToTwitter_try_def tweet_data_skipped tweet_data_null)
  show "sent (snd (postToTwitter c (Some tok) m ua w)) =
          sent w @ [\<lparr>meth = ''POST'', url = [Txt ''https://api.twitter.com/2/tweets''],
                      auth = Bearer tok, extra_headers = JUndef,
                      body = JsonBody (JObj [(''text'', JStr c)])\<rparr>]"
    unfolding same using assms(3) by (simp add: text_only_sent text_only_def tweet_request_def)
next
  fix resp rest data d
  assume "net w = Inr resp # rest \<and> ok resp \<and> json resp = Some data \<and>
          getp data ''data'' = Inr d"
  then show "fst (postToTwitter c (Some tok) m ua w) =
               Inr \<lparr>success = True,
                    postId = Some (to_jstr (js_or (optp d ''id'') (JStr ''unknown''))),
                    post_url = None, error = None\<rparr>"
    using assms
    by (simp add: postToTwitter_def postToTwitter_try_def tweet_data_skipped io_defs
        succeeded_def)
qed

theorem twitter_text_only_without_oauth1a_witness:
  "has_media (JArr [JObj [(''cloudinaryUrl'', JStr ''https://cdn/cat.gif'')]]) \<and>
   oauth1a_pair (Some \<lparr>connected = True, accessToken = Some ''token'',
                       oauth1aAccessToken = None, oauth1aAccessTokenSecret = None\<rparr>) = None \<and>
   ''token'' \<noteq> [] \<and>
   postToTwitter ''hello'' (Some ''token'')
     (JArr [JObj [(''cloudinaryUrl'', JStr ''https://cdn/cat.gif'')]])
     (Some \<lparr>connected = True, accessToken = Some ''token'',
            oauth1aAccessToken = None, oauth1aAccessTokenSecret = None\<rparr>)
     (idle\<lparr>net := [answer (JObj [(''data'', JObj [(''id'', JStr ''1'')])])]\<rparr>) =
   (Inr \<lparr>success = True, postId = Some [Txt ''1''], post_url = None, error = None\<rparr>,
    idle\<lparr>net := [], sent := [\<lparr>meth = ''POST'', url = [Txt ''https://api.twitter.com/2/tweets''],
                      auth = Bearer ''token'', extra_headers = JUndef,
                      body = JsonBody (JObj [(''text'', JStr ''hello'')])\<rparr>]\<rparr>)"
  using twitter_text_only_without_oauth1a
    [of "JArr [JObj [(''cloudinaryUrl'', JStr ''https://cdn/cat.gif'')]]"
        "Some \<lparr>connected = True, accessToken = Some ''token'',
               oauth1aAccessToken = None, oauth1aAccessTokenSecret = None\<rparr>"
        "''token''" "''hello''"
        "idle\<lparr>net := [answer (JObj [(''data'', JObj [(''id'', JStr ''1'')])])]\<rparr>"]
  by (simp add: has_media_def isArray_def elems_def optp_def oauth1a_pair_def
      postToTwitter_def postToTwitter_try_def tweet_data_def io_defs idle_def answer_def reply_def
      ok_def succeeded_def js_or_def to_jstr_def text_only_def tweet_request_def)

section \<open>Twitter: the chunked upload of an animated image\<close>

lemma gif_phases:
  "sent (snd (uploadGifChunked buf mt mc ck cs tok sec w)) =
     sent w @ [init_request buf mt mc ck cs tok sec] \<or>
   (\<exists>mid. sent (snd (uploadGifChunked buf mt mc ck cs tok sec w)) =
      sent w @ [init_request buf mt mc ck cs tok sec,
                append_request buf mid ck cs tok sec]) \<or>
   (\<exists>mid. sent (snd (uploadGifChunked buf mt mc ck cs tok sec w)) =
      sent w @ [init_request buf mt mc ck cs tok sec,
                append_request buf mid ck cs tok sec,
                finalize_request mid ck cs tok sec])"
  unfolding uploadGifChunked_def
  by (auto simp: io_defs split: sum.splits option.splits list.splits if_splits)

lemma gif_returns:
  "uploadGifChunked buf mt mc ck cs tok sec w = (Inr v, w') \<Longrightarrow>
   sent w' = sent w @ [init_request buf mt mc ck cs tok sec,
                       append_request buf v ck cs tok sec,
                       finalize_request v ck cs tok sec]"
  unfolding uploadGifChunked_def
  by (auto simp: io_defs split: sum.splits option.splits list.splits if_splits)

lemma gif_async:
  "net w = Inr r1 # Inr r2 # Inr r3 # rest \<Longrightarrow> ok r1 \<Longrightarrow> ok r2 \<Longrightarrow> ok r3 \<Longrightarrow>
   json r1 = Some j1 \<Longrightarrow> getp j1 ''media_id_string'' = Inr mid \<Longrightarrow>
   json r3 = Some j3 \<Longrightarrow> getp j3 ''processing_info'' = Inr pinfo \<Longrightarrow>
   uploadGifChunked buf mt mc ck cs tok sec w =
     (Inr mid, w\<lparr>net := rest,
                 sent := sent w @ [init_request buf mt mc ck cs tok sec,
                                   append_request buf mid ck cs tok sec,
                                   finalize_request mid ck cs tok sec]\<rparr>)"
  unfolding uploadGifChunked_def
  by (simp add: io_defs)

lemma status_distinct:
  "status_request x ck cs tok sec \<noteq> init_request buf mt mc ck' cs' tok' sec'"
  "status_request x ck cs tok sec \<noteq> append_request buf mid ck' cs' tok' sec'"
  "status_request x ck cs tok sec \<noteq> finalize_request mid ck' cs' tok' sec'"
  by (simp_all add: status_request_def init_request_def append_request_def
      finalize_request_def twitter_upload_request_def)

lemma gif_never_polls:
  "status_request x ck cs tok sec \<notin>
     set (drop (length (sent w)) (sent (snd (uploadGifChunked buf mt mc ck cs tok sec w))))"
  using gif_phases [of buf mt mc ck cs tok sec w]
  by (auto simp: status_distinct)

lemma gif_route:
  "net w = Inr r0 # rest \<Longrightarrow> ok r0 \<Longrightarrow> js_includes (toLowerCase s) ''.gif'' \<Longrightarrow>
   TWITTER_API_KEY w = Some ck \<Longrightarrow> TWITTER_API_SECRET w = Some cs \<Longrightarrow>
   ck \<noteq> [] \<Longrightarrow> cs \<noteq> [] \<Longrightarrow>
   uploadMediaToTwitterV1 (JStr s) tok sec w =
     uploadGifChunked (bytes r0) ''image/gif'' ''tweet_gif'' ck cs tok sec
       (w\<lparr>net := rest, sent := sent w @ [download_request (JStr s)]\<rparr>)"
  unfolding uploadMediaToTwitterV1_def
  by (simp add: io_defs getenv_def)

lemma wait_loop_sent:
  "\<exists>more. sent (snd (waitForProcessing_loop n x ck cs tok sec w)) = sent w @ more"
proof (induction n arbitrary: w)
  case 0
  then show ?case by (simp add: throw_def)
next
  case (Suc n)
  obtain r w1 where f: "fetch (status_request x ck cs tok sec) w = (r, w1)"
    by (cases "fetch (status_request x ck cs tok sec) w")
  then have s1: "sent w1 = sent w @ [status_request x ck cs tok sec]"
    by (auto simp: fetch_def split: list.splits)
  from Suc [of w1] obtain more where
    m: "sent (snd (waitForProcessing_loop n x ck cs tok sec w1)) = sent w1 @ more"
    by blast
  show ?case
    using f s1 m
    by (auto simp: await_def ret_def throw_def lift_def parse_json_def
        split: sum.splits option.splits prod.splits)
qed

lemma wait_first:
  "\<exists>more. sent (snd (waitForProcessing x ck cs tok sec w)) =
     sent w @ status_request x ck cs tok sec # more"
proof -
  obtain r w1 where f: "fetch (status_request x ck cs tok sec) w = (r, w1)"
    by (cases "fetch (status_request x ck cs tok sec) w")
  then have s1: "sent w1 = sent w @ [status_request x ck cs tok sec]"
    by (auto simp: fetch_def split: list.splits)
  from wait_loop_sent [of 9 x ck cs tok sec w1] obtain more where
    m: "sent (snd (waitForProcessing_loop 9 x ck cs tok sec w1)) = sent w1 @ more"
    by blast
  have ten: "waitForProcessing x ck cs tok sec = waitForProcessing_loop (Suc 9) x ck cs tok sec"
    by (simp add: waitForProcessing_def)
  show ?thesis
    unfolding ten waitForProcessing_loop.simps
    using f s1 m
    by (auto simp: await_def ret_def throw_def lift_def parse_json_def
        split: sum.splits option.splits prod.splits)
qed

lemma upload_requests:
  "init_request buf mt mc ck cs tok sec =
     \<lparr>meth = ''POST'', url = [Txt ''https://upload.twitter.com/1.1/media/upload.json''],
      auth = OAuth1 ''POST'' [Txt ''https://upload.twitter.com/1.1/media/upload.json'']
               [(''command'', [Txt ''INIT'']), (''media_type'', [Txt mt]),
                (''total_bytes'', [Num (length buf)]), (''media_category'', [Txt mc])]
               ck cs tok sec,
      extra_headers = JUndef,
      body = FormUrl [(''command'', [Txt ''INIT'']), (''media_type'', [Txt mt]),
                      (''total_bytes'', [Num (length buf)]), (''media_category'', [Txt mc])]\<rparr>"
  "append_request buf mid ck cs tok sec =
     \<lparr>meth = ''POST'', url = [Txt ''https://upload.twitter.com/1.1/media/upload.json''],
      auth = OAuth1 ''POST'' [Txt ''https://upload.twitter.com/1.1/media/upload.json'']
               [(''command'', [Txt ''APPEND'']), (''media_id'', to_jstr mid),
                (''segment_index'', [Txt ''0'']), (''media_data'', [B64 buf])]
               ck cs tok sec,
      extra_headers = JUndef,
      body = FormUrl [(''command'', [Txt ''APPEND'']), (''media_id'', to_jstr mid),
                      (''segment_index'', [Txt ''0'']), (''media_data'', [B64 buf])]\<rparr>"
  "finalize_request mid ck cs tok sec =
     \<lparr>meth = ''POST'', url = [Txt ''https://upload.twitter.com/1.1/media/upload.json''],
      auth = OAuth1 ''POST'' [Txt ''https://upload.twitter.com/1.1/media/upload.json'']
               [(''command'', [Txt ''FINALIZE'']), (''media_id'', to_jstr mid)]
               ck cs tok sec,
      extra_headers = JUndef,
      body = FormUrl [(''command'', [Txt ''FINALIZE'']), (''media_id'', to_jstr mid)]\<rparr>"
  "status_request mid ck cs tok sec =
     \<lparr>meth = ''GET'',
      url = [Txt ''https://upload.twitter.com/1.1/media/upload.json'',
             Txt ''?command=STATUS&media_id=''] @ to_jstr mid,
      auth = OAuth1 ''GET'' [Txt ''https://upload.twitter.com/1.1/media/upload.json'']
               [(''command'', [Txt ''STATUS'']), (''media_id'', to_jstr mid)]
               ck cs tok sec,
      extra_headers = JUndef, body = NoBody\<rparr>"
  by (simp_all add: init_request_def append_request_def finalize_request_def
      status_request_def twitter_upload_request_def uploadUrl_def)

text \<open>
  Claim C9. An image whose URL contains \<open>.gif\<close> goes, once downloaded, to
  \<open>uploadGifChunked\<close> with the whole downloaded buffer. Whatever the world answers,
  the requests \<open>uploadGifChunked\<close> sends are INIT, APPEND, FINALIZE in this order,
  stopping at the first phase that fails. Each is a signed \<open>POST\<close> to
  \<open>https://upload.twitter.com/1.1/media/upload.json\<close> with a form body: INIT declares
  the media type, the total size and the media category; the one APPEND carries the
  media identifier INIT answered and the whole buffer in base64 at segment index 0;
  FINALIZE carries that media identifier. A call that returns has sent exactly these
  three. It never sends a STATUS request (a \<open>GET\<close> with \<open>command=STATUS\<close>), which is the
  first thing \<open>waitForProcessing\<close> does whenever it is called: the polling helper is not
  invoked. And when the three phases are accepted it returns the media identifier of
  INIT right after FINALIZE, whatever \<open>processing_info\<close> the answer to FINALIZE carries,
  having used up three answers of the network and no more.
\<close>

theorem gif_upload_three_phases:
  "(\<forall>r0 rest s ck' cs'.
      net w = Inr r0 # rest \<and> ok r0 \<and> js_includes (toLowerCase s) ''.gif'' \<and>
      TWITTER_API_KEY w = Some ck' \<and> TWITTER_API_SECRET w = Some cs' \<and>
      ck' \<noteq> [] \<and> cs' \<noteq> [] \<longrightarrow>
      uploadMediaToTwitterV1 (JStr s) tok sec w =
        uploadGifChunked (bytes r0) ''image/gif'' ''tweet_gif'' ck' cs' tok sec
          (w\<lparr>net := rest, sent := sent w @ [download_request (JStr s)]\<rparr>)) \<and>
   (sent (snd (uploadGifChunked buf mt mc ck cs tok sec w)) =
      sent w @ [init_request buf mt mc ck cs tok sec] \<or>
    (\<exists>mid. sent (snd (uploadGifChunked buf mt mc ck cs tok sec w)) =
       sent w @ [init_request buf mt mc ck cs tok sec,
                 append_request buf mid ck cs tok sec]) \<or>
    (\<exists>mid. sent (snd (uploadGifChunked buf mt mc ck cs tok sec w)) =
       sent w @ [init_request buf mt mc ck cs tok sec,
                 append_request buf mid ck cs tok sec,
                 finalize_request mid ck cs tok sec])) \<and>
   init_request buf mt mc ck cs tok sec =
     \<lparr>meth = ''POST'', url = [Txt ''https://upload.twitter.com/1.1/media/upload.json''],
      auth = OAuth1 ''POST'' [Txt ''https://upload.twitter.com/1.1/media/upload.json'']
               [(''command'', [Txt ''INIT'']), (''media_type'', [Txt mt]),
                (''total_bytes'', [Num (length buf)]), (''media_category'', [Txt mc])]
               ck cs tok sec,
      extra_headers = JUndef,
      body = FormUrl [(''command'', [Txt ''INIT'']), (''media_type'', [Txt mt]),
                      (''total_bytes'', [Num (length buf)]), (''media_category'', [Txt mc])]\<rparr> \<and>
   (\<forall>mid. append_request buf mid ck cs tok sec =
     \<lparr>meth = ''POST'', url = [Txt ''https://upload.twitter.com/1.1/media/upload.json''],
      auth = OAuth1 ''POST'' [Txt ''https://upload.twitter.com/1.1/media/upload.json'']
               [(''command'', [Txt ''APPEND'']), (''media_id'', to_jstr mid),
                (''segment_index'', [Txt ''0'']), (''media_data'', [B64 buf])]
               ck cs tok sec,
      extra_headers = JUndef,
      body = FormUrl [(''command'', [Txt ''APPEND'']), (''media_id'', to_jstr mid),
                      (''segment_index'', [Txt ''0'']), (''media_data'', [B64 buf])]\<rparr>) \<and>
   (\<forall>mid. finalize_request mid ck cs tok sec =
     \<lparr>meth = ''POST'', url = [Txt ''https://upload.twitter.com/1.1/media/upload.json''],
      auth = OAuth1 ''POST'' [Txt ''https://upload.twitter.com/1.1/media/upload.json'']
               [(''command'', [Txt ''FINALIZE'']), (''media_id'', to_jstr mid)]
               ck cs tok sec,
      extra_headers = JUndef,
      body = FormUrl [(''command'', [Txt ''FINALIZE'']), (''media_id'', to_jstr mid)]\<rparr>) \<and>
   (\<forall>mid. status_request mid ck cs tok sec =
     \<lparr>meth = ''GET'',
      url = [Txt ''https://upload.twitter.com/1.1/media/upload.json'',
             Txt ''?command=STATUS&media_id=''] @ to_jstr mid,
      auth = OAuth1 ''GET'' [Txt ''https://upload.twitter.com/1.1/media/upload.json'']
               [(''command'', [Txt ''STATUS'']), (''media_id'', to_jstr mid)]
               ck cs tok sec,
      extra_headers = JUndef, body = NoBody\<rparr>) \<and>
   (\<forall>x w0. \<exists>more. sent (snd (waitForProcessing x ck cs tok sec w0)) =
      sent w0 @ status_request x ck cs tok sec # more) \<and>
   (\<forall>v w'. uploadGifChunked buf mt mc ck cs tok sec w = (Inr v, w') \<longrightarrow>
      sent w' = sent w @ [init_request buf mt mc ck cs tok sec,
                          append_request buf v ck cs tok sec,
                          finalize_request v ck cs tok sec]) \<and>
   (\<forall>x. status_request x ck cs tok sec \<notin>
      set (drop (length (sent w))
             (sent (snd (uploadGifChunked buf mt mc ck cs tok sec w))))) \<and>
   (\<forall>r1 r2 r3 rest j1 j3 mid pinfo.
      net w = Inr r1 # Inr r2 # Inr r3 # rest \<and> ok r1 \<and> ok r2 \<and> ok r3 \<and>
      json r1 = Some j1 \<and> getp j1 ''media_id_string'' = Inr mid \<and>
      json r3 = Some j3 \<and> getp j3 ''processing_info'' = Inr pinfo \<longrightarrow>
      uploadGifChunked buf mt mc ck cs tok sec w =
        (Inr mid, w\<lparr>net := rest,
                    sent := sent w @ [init_request buf mt mc ck cs tok sec,
                                      append_request buf mid ck cs tok sec,
                                      finalize_request mid ck cs tok sec]\<rparr>))"
  apply (intro conjI)
  subgoal by (auto simp: gif_route)
  subgoal by (rule gif_phases)
  subgoal by (rule upload_requests)
  subgoal by (simp add: upload_requests(2))
  subgoal by (simp add: upload_requests(3))
  subgoal by (simp add: upload_requests(4))
  subgoal using wait_first by blast
  subgoal using gif_returns by blast
  subgoal using gif_never_polls by blast
  subgoal by (auto simp: gif_async)
  done

theorem gif_upload_three_phases_witness:
  "uploadGifChunked [71, 73, 70] ''image/gif'' ''tweet_gif'' ''key'' ''secret'' ''t'' ''s''
     (idle\<lparr>net := [answer (JObj [(''media_id_string'', JStr ''7'')]),
                     answer JNull,
                     answer (JObj [(''media_id_string'', JStr ''7''),
                                   (''processing_info'',
                                    JObj [(''state'', JStr ''pending'')])])]\<rparr>) =
   (Inr (JStr ''7''),
    idle\<lparr>net := [],
          sent :=
            [\<lparr>meth = ''POST'', url = [Txt ''https://upload.twitter.com/1.1/media/upload.json''],
              auth = OAuth1 ''POST'' [Txt ''https://upload.twitter.com/1.1/media/upload.json'']
                       [(''command'', [Txt ''INIT'']), (''media_type'', [Txt ''image/gif'']),
                        (''total_bytes'', [Num 3]), (''media_category'', [Txt ''tweet_gif''])]
                       ''key'' ''secret'' ''t'' ''s'',
              extra_headers = JUndef,
              body = FormUrl [(''command'', [Txt ''INIT'']), (''media_type'', [Txt ''image/gif'']),
                              (''total_bytes'', [Num 3]),
                              (''media_category'', [Txt ''tweet_gif''])]\<rparr>,
             \<lparr>meth = ''POST'', url = [Txt ''https://upload.twitter.com/1.1/media/upload.json''],
              auth = OAuth1 ''POST'' [Txt ''https://upload.twitter.com/1.1/media/upload.json'']
                       [(''command'', [Txt ''APPEND'']), (''media_id'', [Txt ''7'']),
                        (''segment_index'', [Txt ''0'']), (''media_data'', [B64 [71, 73, 70]])]
                       ''key'' ''secret'' ''t'' ''s'',
              extra_headers = JUndef,
              body = FormUrl [(''command'', [Txt ''APPEND'']), (''media_id'', [Txt ''7'']),
                              (''segment_index'', [Txt ''0'']),
                              (''media_data'', [B64 [71, 73, 70]])]\<rparr>,
             \<lparr>meth = ''POST'', url = [Txt ''https://upload.twitter.com/1.1/media/upload.json''],
              auth = OAuth1 ''POST'' [Txt ''https://upload.twitter.com/1.1/media/upload.json'']
                       [(''command'', [Txt ''FINALIZE'']), (''media_id'', [Txt ''7''])]
                       ''key'' ''secret'' ''t'' ''s'',
              extra_headers = JUndef,
              body = FormUrl [(''command'', [Txt ''FINALIZE'']),
                              (''media_id'', [Txt ''7''])]\<rparr>]\<rparr>)"
  using gif_upload_three_phases
    [of "idle\<lparr>net := [answer (JObj [(''media_id_string'', JStr ''7'')]),
                        answer JNull,
                        answer (JObj [(''media_id_string'', JStr ''7''),
                                      (''processing_info'',
                                       JObj [(''state'', JStr ''pending'')])])]\<rparr>"
        "''t''" "''s''" "[71, 73, 70]" "''image/gif''" "''tweet_gif''" "''key''" "''secret''"]
  by (simp add: idle_def answer_def reply_def ok_def to_jstr_def)

section \<open>What the publishers leave alone\<close>

lemma frame_refl [simp]: "frame w w"
  by (simp add: frame_def)

lemma frame_trans: "frame w w1 \<Longrightarrow> frame w1 w2 \<Longrightarrow> frame w w2"
  by (simp add: frame_def)

lemma no_ret: "network_only (ret a)"
  by (simp add: network_only_def ret_def)

lemma no_throw: "network_only (throw e)"
  by (simp add: network_only_def throw_def)

lemma no_lift: "network_only (lift r)"
  by (simp add: network_only_def lift_def)

lemma no_fetch: "network_only (fetch req)"
  by (auto simp: network_only_def fetch_def frame_def split: list.splits)

lemma no_now: "network_only now"
  by (auto simp: network_only_def now_def Date_now_def frame_def split: list.splits)

lemma no_getenv: "network_only (getenv f)"
  by (simp add: network_only_def getenv_def)

lemma no_parse_json: "network_only (parse_json r)"
  by (simp add: parse_json_def no_ret no_throw split: option.split)

lemma no_await:
  "network_only m \<Longrightarrow> (\<And>a. network_only (f a)) \<Longrightarrow> network_only (await m f)"
  unfolding network_only_def await_def
  by (clarsimp split: prod.splits sum.splits) (meson frame_trans)

lemma no_try_catch:
  "network_only m \<Longrightarrow> (\<And>e. network_only (h e)) \<Longrightarrow> network_only (try_catch m h)"
  unfolding network_only_def try_catch_def
  by (clarsimp split: prod.splits sum.splits) (meson frame_trans)

lemma no_if: "network_only a \<Longrightarrow> network_only b \<Longrightarrow> network_only (if c then a else b)"
  by simp

lemma no_case_option:
  "network_only a \<Longrightarrow> (\<And>x. network_only (f x)) \<Longrightarrow>
   network_only (case t of None \<Rightarrow> a | Some x \<Rightarrow> f x)"
  by (cases t) auto

lemma no_case_prod:
  "(\<And>x y. network_only (f x y)) \<Longrightarrow> network_only (case t of (x, y) \<Rightarrow> f x y)"
  by (cases t) auto

lemmas no_intros = no_await no_try_catch no_ret no_throw no_lift no_fetch no_now no_getenv
  no_parse_json no_if no_case_option no_case_prod

lemma no_uploadImageSimple: "network_only (uploadImageSimple b c ck cs tok sec)"
  unfolding uploadImageSimple_def by (intro no_intros)

lemma no_uploadGifChunked: "network_only (uploadGifChunked b mt mc ck cs tok sec)"
  unfolding uploadGifChunked_def by (intro no_intros)

lemma no_uploadMediaToTwitterV1: "network_only (uploadMediaToTwitterV1 u tok sec)"
proof (cases u)
  case (JStr s)
  show ?thesis
    unfolding uploadMediaToTwitterV1_def JStr
    by (simp cong: if_cong, intro no_intros no_uploadGifChunked no_uploadImageSimple)
qed (simp_all add: uploadMediaToTwitterV1_def no_intros)

lemma no_twitter_media_loop: "network_only (twitter_media_loop items tok sec ids)"
  by (induction items arbitrary: ids) (auto intro!: no_intros no_uploadMediaToTwitterV1)

lemma no_tweet_data: "network_only (tweet_data c m ua)"
  unfolding tweet_data_def by (intro no_intros no_twitter_media_loop)

lemma no_postToTwitter: "network_only (postToTwitter c token m ua)"
  unfolding postToTwitter_def postToTwitter_try_def by (intro no_intros no_tweet_data)

lemma no_lease_upload: "network_only (lease_upload a b u token)"
  unfolding lease_upload_def by (intro no_intros)

lemma no_uploadMediaForGallery: "network_only (uploadMediaForGallery u token)"
  unfolding uploadMediaForGallery_def by (intro no_intros no_lease_upload)

lemma no_uploadImageToRedditAsset: "network_only (uploadImageToRedditAsset u token)"
  unfolding uploadImageToRedditAsset_def by (intro no_intros no_lease_upload)

lemma no_gallery_loop: "network_only (gallery_loop items token acc)"
  by (induction items arbitrary: acc) (auto intro!: no_intros no_uploadMediaForGallery)

lemma no_check_errors: "network_only (check_errors j)"
  unfolding check_errors_def by (intro no_intros)

lemma no_postToReddit: "network_only (postToReddit c token m ua sub)"
  unfolding postToReddit_def postToReddit_try_def gallery_branch_def image_branch_def
    other_media_branch_def text_branch_def gallery_submit_def image_submit_def
  by (intro no_intros no_gallery_loop no_uploadImageToRedditAsset no_check_errors)

lemma no_uploadImageToLinkedin: "network_only (uploadImageToLinkedin u token urn)"
  unfolding uploadImageToLinkedin_def by (intro no_intros)

lemma no_linkedin_media_loop: "network_only (linkedin_media_loop items token urn acc)"
  by (induction items arbitrary: acc) (auto intro!: no_intros no_uploadImageToLinkedin)

lemma no_linkedin_assets: "network_only (linkedin_assets m token urn)"
  unfolding linkedin_assets_def
  by (intro no_intros no_linkedin_media_loop no_uploadImageToLinkedin)

lemma no_postToLinkedin: "network_only (postToLinkedin c token m)"
  unfolding postToLinkedin_def postToLinkedin_try_def
  by (intro no_intros no_linkedin_assets)

section \<open>The attempts of a post\<close>

lemma frameD: "network_only m \<Longrightarrow> m w = (r, w') \<Longrightarrow> frame w w'"
  by (simp add: network_only_def)

lemma invoke_effect:
  assumes "network_only m" and "invoke name m w = (r, w')"
  shows "invoked w' = invoked w @ [name] \<and> saved w' = saved w \<and>
         postsCount w' = postsCount w \<and> db_faults w' = db_faults w \<and> races w' = races w"
  using frameD [OF assms(1), of "w\<lparr>invoked := invoked w @ [name]\<rparr>" r w'] assms(2)
  by (simp add: invoke_def frame_def)

lemma race_effect:
  assumes "race m w = (r, w')"
  shows "\<exists>r0 wa. m wa = (r0, w') \<and> invoked wa = invoked w \<and> saved wa = saved w \<and>
           postsCount wa = postsCount w \<and> db_faults wa = db_faults w"
proof (cases "races w")
  case Nil
  with assms have "m w = (r, w')" by (simp add: race_def)
  then show ?thesis by blast
next
  case (Cons b bs)
  obtain x where "m (w\<lparr>races := bs\<rparr>) = (x, w')"
    using assms Cons by (auto simp: race_def split: prod.splits if_splits)
  then have "m (w\<lparr>races := bs\<rparr>) = (x, w') \<and> invoked (w\<lparr>races := bs\<rparr>) = invoked w \<and>
             saved (w\<lparr>races := bs\<rparr>) = saved w \<and>
             postsCount (w\<lparr>races := bs\<rparr>) = postsCount w \<and>
             db_faults (w\<lparr>races := bs\<rparr>) = db_faults w"
    by simp
  then show ?thesis by blast
qed

lemma publish_effect:
  assumes "publish p platform a w = (r, w')"
  shows "saved w' = saved w \<and> postsCount w' = postsCount w \<and> db_faults w' = db_faults w \<and>
         (invoked w' = invoked w \<or> invoked w' = invoked w @ [platform])"
proof -
  consider (t) "platform = ''twitter''" | (l) "platform = ''linkedin''" | (r) "platform = ''reddit''"
    | (o) "platform \<noteq> ''twitter''" "platform \<noteq> ''linkedin''" "platform \<noteq> ''reddit''"
    by blast
  then show ?thesis
  proof cases
    case t
    with assms have "race (invoke ''twitter''
        (postToTwitter (content p) (accessToken a) (media p) (Some a))) w = (r, w')"
      by (simp add: publish_def)
    from race_effect [OF this] obtain r0 wa where
      m: "invoke ''twitter'' (postToTwitter (content p) (accessToken a) (media p) (Some a)) wa
            = (r0, w')"
      and wa: "invoked wa = invoked w" "saved wa = saved w" "postsCount wa = postsCount w"
        "db_faults wa = db_faults w"
      by blast
    from invoke_effect [OF no_postToTwitter m] wa t show ?thesis by simp
  next
    case l
    with assms have "invoke ''linkedin''
        (postToLinkedin (content p) (accessToken a) (media p)) w = (r, w')"
      by (simp add: publish_def)
    from invoke_effect [OF no_postToLinkedin this] l show ?thesis by simp
  next
    case r
    with assms have "invoke ''reddit''
        (postToReddit (content p) (accessToken a) (media p) (Some a) (Some ''test'')) w = (r, w')"
      by (simp add: publish_def)
    from invoke_effect [OF no_postToReddit this] r show ?thesis by simp
  next
    case o
    with assms show ?thesis by (simp add: publish_def ret_def)
  qed
qed

lemma task_orphan:
  "userId p = None \<Longrightarrow> platform_task p platform w = (Inl (TypeError ''_id''), w)"
  by (simp add: platform_task_def throw_def)

lemma task_not_ready:
  "userId p \<noteq> None \<Longrightarrow> \<not> ready p platform \<Longrightarrow>
   \<exists>msg. platform_task p platform w = (Inr (not_ready platform msg), w) \<and>
      msg \<in> {'' account not found'', '' account not connected'', '' account missing access token''}"
  by (auto simp: ready_def platform_task_def ret_def split: option.splits)

lemma task_effect:
  assumes "platform_task p platform w = (r, w')"
  shows "(userId p = None \<longrightarrow> r = Inl (TypeError ''_id'') \<and> w' = w) \<and>
         (userId p \<noteq> None \<longrightarrow> (\<exists>res. r = Inr (platform, res))) \<and>
         saved w' = saved w \<and> postsCount w' = postsCount w \<and> db_faults w' = db_faults w \<and>
         (invoked w' = invoked w \<or> (ready p platform \<and> invoked w' = invoked w @ [platform]))"
proof (cases "userId p")
  case None
  from task_orphan [OF this, of platform w] assms None show ?thesis by simp
next
  case (Some u)
  show ?thesis
  proof (cases "ready p platform")
    case False
    from Some have "userId p \<noteq> None" by simp
    from task_not_ready [OF this False, of w] assms Some show ?thesis
      by (auto simp: not_ready_def)
  next
    case True
    with Some obtain a where a: "connectedAccounts u platform = Some a" "connected a"
      "\<not> falsy_str (accessToken a)"
      by (auto simp: ready_def split: option.splits)
    obtain r0 w0 where pub: "publish p platform a w = (r0, w0)"
      by (cases "publish p platform a w")
    from publish_effect [OF pub] pub assms a True Some show ?thesis
      by (auto simp: platform_task_def io_defs split: sum.splits)
  qed
qed

lemma attempts_effect:
  "allSettled (platform_task p) ps w = (rs, w') \<Longrightarrow>
   saved w' = saved w \<and> postsCount w' = postsCount w \<and> db_faults w' = db_faults w \<and>
   (\<exists>new. invoked w' = invoked w @ new \<and> set new \<subseteq> {q \<in> set ps. ready p q}) \<and>
   length rs = length ps \<and>
   (userId p = None \<longrightarrow> rs = map (\<lambda>q. Inl (TypeError ''_id'')) ps \<and> w' = w) \<and>
   (userId p \<noteq> None \<longrightarrow> (\<forall>i < length ps. \<exists>res. rs ! i = Inr (ps ! i, res)))"
proof (induction ps arbitrary: w rs w')
  case Nil
  then show ?case by simp
next
  case (Cons q ps)
  obtain r w1 where t: "platform_task p q w = (r, w1)" by (cases "platform_task p q w")
  obtain rs' w2 where a: "allSettled (platform_task p) ps w1 = (rs', w2)"
    by (cases "allSettled (platform_task p) ps w1")
  from Cons.prems t a have eq: "rs = r # rs'" "w' = w2" by simp_all
  note te = task_effect [OF t]
  note ih = Cons.IH [OF a]
  from ih obtain new where new: "invoked w2 = invoked w1 @ new" "set new \<subseteq> {q \<in> set ps. ready p q}"
    by blast
  have inv: "\<exists>new. invoked w' = invoked w @ new \<and> set new \<subseteq> {x \<in> set (q # ps). ready p x}"
  proof (cases "invoked w1 = invoked w")
    case True
    with new eq show ?thesis by auto
  next
    case False
    with te have "ready p q" "invoked w1 = invoked w @ [q]" by auto
    with new eq have "invoked w' = invoked w @ (q # new)" "set (q # new) \<subseteq> {x \<in> set (q # ps). ready p x}"
      by auto
    then show ?thesis by blast
  qed
  have idx: "\<forall>i < length (q # ps). \<exists>res. rs ! i = Inr ((q # ps) ! i, res)"
    if owner: "userId p \<noteq> None"
  proof (intro allI impI)
    fix i assume "i < length (q # ps)"
    then show "\<exists>res. rs ! i = Inr ((q # ps) ! i, res)"
      using te ih eq owner by (cases i) auto
  qed
  have orphan: "rs = map (\<lambda>q. Inl (TypeError ''_id'')) (q # ps) \<and> w' = w"
    if "userId p = None"
    using te ih eq that by simp
  from te ih eq inv idx orphan show ?case by simp
qed

section \<open>The results of a post\<close>

lemma any_success_iff:
  "any_success settled = (\<exists>pl r. Inr (pl, r) \<in> set settled \<and> success r)"
proof
  assume "any_success settled"
  then obtain x where mem: "x \<in> set settled"
    and good: "case x of Inr v \<Rightarrow> success (snd v) | Inl reason \<Rightarrow> False"
    by (auto simp: any_success_def list_ex_iff)
  from good obtain v where "x = Inr v" "success (snd v)" by (cases x) auto
  with mem have "Inr (fst v, snd v) \<in> set settled \<and> success (snd v)" by simp
  then show "\<exists>pl r. Inr (pl, r) \<in> set settled \<and> success r" by blast
next
  assume "\<exists>pl r. Inr (pl, r) \<in> set settled \<and> success r"
  then show "any_success settled"
    by (force simp: any_success_def list_ex_iff)
qed


lemma settled_platforms:
  assumes "attempts p w = (settled, w1)" and "userId p \<noteq> None"
  shows "map fst (map settled_value settled) = platforms p"
proof -
  from assms have a: "allSettled (platform_task p) (platforms p) w = (settled, w1)"
    by (simp add: attempts_def)
  note e = attempts_effect [OF a]
  show ?thesis
  proof (rule nth_equalityI)
    show "length (map fst (map settled_value settled)) = length (platforms p)"
      using e by simp
  next
    fix i assume "i < length (map fst (map settled_value settled))"
    then have i: "i < length (platforms p)" using e by simp
    with e assms(2) obtain res where "settled ! i = Inr (platforms p ! i, res)" by blast
    with i e show "map fst (map settled_value settled) ! i = platforms p ! i"
      by (simp add: settled_value_def)
  qed
qed

lemma settled_orphan:
  assumes "attempts p w = (settled, w1)" and "userId p = None"
  shows "settled = map (\<lambda>q. Inl (TypeError ''_id'')) (platforms p)" "w1 = w"
    "\<not> any_success settled"
proof -
  from assms have a: "allSettled (platform_task p) (platforms p) w = (settled, w1)"
    by (simp add: attempts_def)
  from attempts_effect [OF a] assms(2)
  show s: "settled = map (\<lambda>q. Inl (TypeError ''_id'')) (platforms p)" and "w1 = w"
    by simp_all
  show "\<not> any_success settled"
    unfolding s by (simp add: any_success_def list_ex_iff)
qed

lemma success_owner:
  "any_success (fst (attempts p w)) \<Longrightarrow> \<exists>u. userId p = Some u"
  using settled_orphan(3) [of p w "fst (attempts p w)" "snd (attempts p w)"]
  by (cases "userId p") auto

lemma final_platformResults:
  assumes "attempts p w = (settled, w1)"
  shows "platformResults (final_post (fst (process_post p w))) =
           fold record_result (map settled_value settled) Map.empty"
  using assms
  by (auto simp: process_post_def updated_def recover_def split: prod.splits sum.splits)

lemma processed_saved:
  assumes "process_post p w = (Processed p' b, w')"
  shows "saved w' (pid p) = Some p'"
proof -
  obtain settled w1 where a: "attempts p w = (settled, w1)" by (cases "attempts p w")
  show ?thesis
    using assms a
    by (auto simp: process_post_def persist_def save_def inc_postsCount_def db_write_def
        updated_def recover_def io_defs
        split: prod.splits sum.splits list.splits option.splits if_splits)
qed


section \<open>How a post ends\<close>

lemma attempts_store:
  assumes "attempts p w = (settled, w1)"
  shows "saved w1 = saved w" "postsCount w1 = postsCount w" "db_faults w1 = db_faults w"
  using attempts_effect [of p "platforms p" w settled w1] assms
  by (simp_all add: attempts_def)

lemma Date_now_store:
  "Date_now w = (t, w') \<Longrightarrow>
   saved w' = saved w \<and> postsCount w' = postsCount w \<and> db_faults w' = db_faults w \<and>
   invoked w' = invoked w \<and> sent w' = sent w \<and> due w' = due w \<and>
   db_connect w' = db_connect w"
  by (auto simp: Date_now_def split: list.splits)

lemma rejected_2:
  "rejected 2 w = 0 \<longleftrightarrow>
     (db_faults w = [] \<or> db_faults w = [None] \<or> (\<exists>fs. db_faults w = None # None # fs))"
  unfolding rejected_def
  apply (cases "db_faults w")
   apply simp
  apply (rename_tac f1 fs1)
  apply (case_tac fs1)
   apply auto
  done

lemma rejected_3:
  "rejected 3 w \<le> 1 \<longleftrightarrow>
     (case db_faults w of
        [] \<Rightarrow> True
      | [f1] \<Rightarrow> True
      | [f1, f2] \<Rightarrow> f1 = None \<or> f2 = None
      | f1 # f2 # f3 # fs \<Rightarrow>
          (f1 = None \<and> f2 = None) \<or> (f1 = None \<and> f3 = None) \<or> (f2 = None \<and> f3 = None))"
  unfolding rejected_def
  apply (cases "db_faults w")
   apply simp
  apply (rename_tac f1 fs1)
  apply (case_tac fs1)
   apply simp
  apply (rename_tac f2 fs2)
  apply (case_tac fs2)
   apply auto
  done

lemma handled:
  fixes p w
  defines "hs \<equiv> any_success (fst (attempts p w))"
    and "q \<equiv> final_post (fst (process_post p w))"
    and "w' \<equiv> snd (process_post p w)"
  shows "pstatus q = (if hs \<and> rejected 2 w = 0 then published else failed)"
    and "publishedAt q = (if hs then Some (fst (Date_now (snd (attempts p w)))) else None)"
    and "counted (fst (process_post p w)) = (hs \<and> rejected 2 w = 0)"
    and "hs \<and> rejected 2 w = 0 \<Longrightarrow>
           \<exists>u. userId p = Some u \<and>
               postsCount w' = (postsCount w)(uid u := postsCount w (uid u) + 1)"
    and "\<not> (hs \<and> rejected 2 w = 0) \<Longrightarrow> postsCount w' = postsCount w"
    and "rejected 3 w \<le> 1 \<Longrightarrow> saved w' (pid p) = Some q"
    and "saved w' (pid p) = saved w (pid p) \<or>
         (\<exists>s. saved w' (pid p) = Some s \<and> platformResults s = platformResults q \<and>
              publishedAt s = publishedAt q)"
    and "db_faults w = [] \<Longrightarrow> db_faults w' = []"
proof -
  obtain settled w1 where a: "attempts p w = (settled, w1)" by (cases "attempts p w")
  note st = attempts_store [OF a]
  obtain t w2 where n: "Date_now w1 = (t, w2)" by (cases "Date_now w1")
  note dn = Date_now_store [OF n]
  have owner: "\<exists>u. userId p = Some u" if "any_success settled"
    using success_owner [of p w] a that by simp
  have f: "db_faults w2 = db_faults w" "db_faults w1 = db_faults w"
    "saved w2 = saved w" "saved w1 = saved w" "postsCount w2 = postsCount w"
    "postsCount w1 = postsCount w"
    using st dn by simp_all
  note defs = process_post_def persist_def save_def inc_postsCount_def db_write_def
    updated_def recover_def io_defs hs_def q_def w'_def rejected_2
  show "pstatus q = (if hs \<and> rejected 2 w = 0 then published else failed)"
    using a n f owner
    by (auto simp: defs split: prod.splits sum.splits list.splits option.splits if_splits)
  show "publishedAt q = (if hs then Some (fst (Date_now (snd (attempts p w)))) else None)"
    using a n
    by (auto simp: process_post_def updated_def recover_def hs_def q_def
        split: prod.splits sum.splits)
  show "counted (fst (process_post p w)) = (hs \<and> rejected 2 w = 0)"
    using a n f owner
    by (auto simp: defs split: prod.splits sum.splits list.splits option.splits if_splits)
  show "hs \<and> rejected 2 w = 0 \<Longrightarrow>
           \<exists>u. userId p = Some u \<and>
               postsCount w' = (postsCount w)(uid u := postsCount w (uid u) + 1)"
    using a n f owner
    by (auto simp: defs split: prod.splits sum.splits list.splits option.splits if_splits)
  show "\<not> (hs \<and> rejected 2 w = 0) \<Longrightarrow> postsCount w' = postsCount w"
    using a n f owner
    by (auto simp: defs split: prod.splits sum.splits list.splits option.splits if_splits)
  show "saved w' (pid p) = Some q" if "rejected 3 w \<le> 1"
  proof -
    from that have "case db_faults w of
        [] \<Rightarrow> True
      | [f1] \<Rightarrow> True
      | [f1, f2] \<Rightarrow> f1 = None \<or> f2 = None
      | f1 # f2 # f3 # fs \<Rightarrow>
          (f1 = None \<and> f2 = None) \<or> (f1 = None \<and> f3 = None) \<or> (f2 = None \<and> f3 = None)"
      by (simp only: rejected_3)
    then show ?thesis
      using a n f owner
      by (auto simp: defs split: prod.splits sum.splits list.splits option.splits if_splits)
  qed
  show "saved w' (pid p) = saved w (pid p) \<or>
         (\<exists>s. saved w' (pid p) = Some s \<and> platformResults s = platformResults q \<and>
              publishedAt s = publishedAt q)"
    using a n f owner
    by (auto simp: defs split: prod.splits sum.splits list.splits option.splits if_splits)
  show "db_faults w = [] \<Longrightarrow> db_faults w' = []"
    using a n f owner
    by (auto simp: defs split: prod.splits sum.splits list.splits option.splits if_splits)
qed

section \<open>Evaluating concrete runs\<close>

lemmas sample_defs = linked_def unlinked_def alice_def bob_def draft_def tweeted_def
  submitted_def idle_def answer_def reply_def partly_online_def online_def
  bobs_post_def orphan_def store_down_def count_rejected_def twice_rejected_def
  tweeted_post_def lost_run_def mixed_run_def

lemmas model_defs = process_post_def attempts_def platform_task_def publish_def race_def
  invoke_def persist_def save_def inc_postsCount_def db_write_def updated_def recover_def
  any_success_def settled_value_def record_result_def not_ready_def Date_now_def
  postToTwitter_def postToTwitter_try_def tweet_data_def has_media_def tweet_request_def
  postToReddit_def postToReddit_try_def text_branch_def submit_request_def self_post_def
  subreddit_of_def trim_def is_space_def check_errors_def api_errors_def data_of_def
  or_empty_def succeeded_def failure_def
  io_defs falsy_str_def ok_def optp_def js_or_def to_jstr_def isArray_def elems_def bearer_def
  text_only_def rejected_def TypeError_def

section \<open>The keys of the results\<close>






section \<open>Status and counter\<close>

text \<open>
  Claim C1 does not hold when the store rejects a write. In \<open>count_rejected\<close> the
  Twitter attempt of Alice's post succeeds and the store accepts the post, then rejects
  the update of the counter: the \<open>catch\<close> block marks the post \<open>failed\<close>, and the post
  is stored \<open>failed\<close> with its \<open>publishedAt\<close> still set, although an attempt succeeded.
\<close>

theorem failed_post_keeps_publishedAt:
  "fst (attempts (draft 1 alice [''twitter'']) count_rejected) =
     [Inr (''twitter'',
           \<lparr>success = True, postId = Some [Txt ''1''], post_url = None, error = None\<rparr>)] \<and>
   fst (process_post (draft 1 alice [''twitter'']) count_rejected) =
     ErrorProcessing
       (tweeted_post\<lparr>pstatus := failed, errorMessage := Some [Txt ''store unreachable'']\<rparr>) \<and>
   pstatus (final_post (fst (process_post (draft 1 alice [''twitter'']) count_rejected))) =
     failed \<and>
   publishedAt (final_post (fst (process_post (draft 1 alice [''twitter'']) count_rejected))) =
     Some 1000 \<and>
   saved (snd (process_post (draft 1 alice [''twitter'']) count_rejected)) 1 =
     Some (tweeted_post\<lparr>pstatus := failed,
                        errorMessage := Some [Txt ''store unreachable'']\<rparr>)"
  by (simp add: model_defs sample_defs)

text \<open>
  Claim C1, amended. Of every post the loop handles: its final status is \<open>published\<close>
  exactly when at least one of its platform attempts reported success and the store
  rejected neither the write of the post nor the update of the owner's counter (the next
  two writes); in every other case its final status is \<open>failed\<close>. Its \<open>publishedAt\<close> is
  set, to the clock's reading taken once all attempts have settled, exactly when at least
  one attempt reported success, and is unset otherwise: so a post can end \<open>failed\<close> with
  \<open>publishedAt\<close> set. The store ends holding the post in that state whenever it rejects
  at most one of the (up to three) writes made for the post.
\<close>

theorem published_iff_some_attempt_succeeded:
  "((pstatus (final_post (fst (process_post p w))) = published) =
      ((\<exists>platform r. Inr (platform, r) \<in> set (fst (attempts p w)) \<and> success r) \<and>
       rejected 2 w = 0)) \<and>
   (pstatus (final_post (fst (process_post p w))) = published \<or>
    pstatus (final_post (fst (process_post p w))) = failed) \<and>
   ((\<exists>platform r. Inr (platform, r) \<in> set (fst (attempts p w)) \<and> success r) \<longrightarrow>
      publishedAt (final_post (fst (process_post p w))) =
        Some (fst (Date_now (snd (attempts p w))))) \<and>
   (\<not> (\<exists>platform r. Inr (platform, r) \<in> set (fst (attempts p w)) \<and> success r) \<longrightarrow>
      pstatus (final_post (fst (process_post p w))) = failed \<and>
      publishedAt (final_post (fst (process_post p w))) = None) \<and>
   (rejected 3 w \<le> 1 \<longrightarrow>
      saved (snd (process_post p w)) (pid p) = Some (final_post (fst (process_post p w))))"
  using handled(1,2) [of p w] handled(6) [of w p]
  by (simp add: any_success_iff)

theorem published_iff_some_attempt_succeeded_witness:
  "fst (attempts (draft 1 alice [''twitter'', ''reddit'']) partly_online) =
     [Inr (''twitter'',
           \<lparr>success = True, postId = Some [Txt ''1''], post_url = None, error = None\<rparr>),
      Inr (''reddit'',
           \<lparr>success = False, postId = None, post_url = None,
            error = Some [Txt ''socket hang up'']\<rparr>)] \<and>
   rejected 2 partly_online = 0 \<and> rejected 3 partly_online \<le> 1 \<and>
   pstatus (final_post (fst (process_post (draft 1 alice [''twitter'', ''reddit''])
                               partly_online))) = published \<and>
   publishedAt (final_post (fst (process_post (draft 1 alice [''twitter'', ''reddit''])
                                   partly_online))) = Some 1000 \<and>
   saved (snd (process_post (draft 1 alice [''twitter'', ''reddit'']) partly_online)) 1 =
     Some (final_post (fst (process_post (draft 1 alice [''twitter'', ''reddit''])
                              partly_online))) \<and>
   fst (attempts (draft 2 bob [''twitter'']) idle) =
     [Inr (''twitter'',
           \<lparr>success = False, postId = None, post_url = None,
            error = Some [Txt ''twitter account not connected'']\<rparr>)] \<and>
   pstatus (final_post (fst (process_post (draft 2 bob [''twitter'']) idle))) = failed \<and>
   publishedAt (final_post (fst (process_post (draft 2 bob [''twitter'']) idle))) = None"
  using published_iff_some_attempt_succeeded
      [of "draft 1 alice [''twitter'', ''reddit'']" partly_online]
    published_iff_some_attempt_succeeded [of "draft 2 bob [''twitter'']" idle]
  by (simp add: model_defs sample_defs)




section \<open>Accounts that are not ready\<close>

lemma allSettled_elems:
  "allSettled task ps w = (rs, w') \<Longrightarrow> \<forall>r \<in> set rs. \<exists>q \<in> set ps. \<exists>w1. r = fst (task q w1)"
proof (induction ps arbitrary: w rs w')
  case Nil
  then show ?case by simp
next
  case (Cons q ps)
  obtain r w1 where t: "task q w = (r, w1)" by (cases "task q w")
  obtain rs' w2 where a: "allSettled task ps w1 = (rs', w2)"
    by (cases "allSettled task ps w1")
  from Cons.prems t a have eq: "rs = r # rs'" by simp
  from t have "r = fst (task q w)" by simp
  with Cons.IH [OF a] eq show ?case by (metis list.set_intros(1,2) set_ConsD)
qed

lemma fold_record_at:
  assumes "\<forall>r \<in> set rs. fst r = pl \<longrightarrow> snd r = x"
    and "pl \<in> fst ` set rs \<or>
         t pl = Some \<lparr>pr_success = success x, pr_postId = postId x, pr_error = error x\<rparr>"
  shows "fold record_result rs t pl =
           Some \<lparr>pr_success = success x, pr_postId = postId x, pr_error = error x\<rparr>"
  using assms
proof (induction rs arbitrary: t)
  case Nil
  then show ?case by simp
next
  case (Cons r rs)
  show ?case
  proof (cases "fst r = pl")
    case True
    with Cons.prems(1) have "snd r = x" by simp
    with True have "record_result r t pl =
        Some \<lparr>pr_success = success x, pr_postId = postId x, pr_error = error x\<rparr>"
      by (simp add: record_result_def)
    with Cons.IH [of "record_result r t"] Cons.prems(1) show ?thesis by simp
  next
    case False
    with Cons.prems(2) have "pl \<in> fst ` set rs \<or>
        record_result r t pl =
          Some \<lparr>pr_success = success x, pr_postId = postId x, pr_error = error x\<rparr>"
      by (auto simp: record_result_def)
    with Cons.IH [of "record_result r t"] Cons.prems(1) show ?thesis by simp
  qed
qed

lemma not_ready_result:
  assumes nr: "platform_task p pl w0 = (Inr (pl, x), w0)" and "\<not> ready p pl"
    and pl: "pl \<in> set (platforms p)"
  shows "platformResults (final_post (fst (process_post p w))) pl =
           Some \<lparr>pr_success = success x, pr_postId = postId x, pr_error = error x\<rparr>"
proof -
  obtain settled w1 where a: "attempts p w = (settled, w1)" by (cases "attempts p w")
  then have as: "allSettled (platform_task p) (platforms p) w = (settled, w1)"
    by (simp add: attempts_def)
  have owner: "userId p \<noteq> None"
    using nr task_orphan [of p pl w0] by auto
  have fixed: "platform_task p pl w' = (Inr (pl, x), w')" for w'
    using nr assms(2)
    by (auto simp: platform_task_def ready_def ret_def throw_def
        split: option.splits if_splits)
  have "snd r = x" if r: "r \<in> set (map settled_value settled)" "fst r = pl" for r
  proof -
    from r obtain s where s: "s \<in> set settled" "r = settled_value s" by auto
    with allSettled_elems [OF as] obtain q w2 where q: "s = fst (platform_task p q w2)"
      by blast
    obtain s' w3 where t: "platform_task p q w2 = (s', w3)" by (cases "platform_task p q w2")
    from task_effect [OF t] q t owner obtain res where res: "s = Inr (q, res)" by auto
    with s r have "q = pl" by (simp add: settled_value_def)
    with q fixed [of w2] s show ?thesis by (simp add: settled_value_def)
  qed
  moreover have "pl \<in> fst ` set (map settled_value settled)"
    using settled_platforms [OF a owner] pl by (metis set_map)
  ultimately show ?thesis
    unfolding final_platformResults [OF a]
    by (intro fold_record_at) auto
qed

lemma never_invoked:
  assumes "\<not> ready p pl"
  shows "\<exists>new. invoked (snd (process_post p w)) = invoked w @ new \<and> pl \<notin> set new"
proof -
  obtain settled w1 where a: "attempts p w = (settled, w1)" by (cases "attempts p w")
  then have as: "allSettled (platform_task p) (platforms p) w = (settled, w1)"
    by (simp add: attempts_def)
  from attempts_effect [OF as] obtain new where
    new: "invoked w1 = invoked w @ new" "set new \<subseteq> {q \<in> set (platforms p). ready p q}"
    by blast
  obtain t w2 where n: "Date_now w1 = (t, w2)" by (cases "Date_now w1")
  have "invoked (snd (process_post p w)) = invoked w1"
    using a n Date_now_store [OF n]
    by (auto simp: process_post_def persist_def save_def inc_postsCount_def db_write_def
        updated_def recover_def io_defs
        split: prod.splits sum.splits list.splits option.splits if_splits)
  with new assms show ?thesis by auto
qed

lemma refusedI:
  assumes t: "platform_task p pl w =
        (Inr (pl, \<lparr>success = False, postId = None, post_url = None,
                    error = Some [Txt (pl @ what)]\<rparr>), w)"
    and nr: "\<not> ready p pl"
  shows "refused p pl what w"
  unfolding refused_def
proof (intro conjI impI)
  show "platform_task p pl w =
        (Inr (pl, \<lparr>success = False, postId = None, post_url = None,
                    error = Some [Txt (pl @ what)]\<rparr>), w)"
    by (rule t)
  show "\<exists>new. invoked (snd (process_post p w)) = invoked w @ new \<and> pl \<notin> set new"
    using nr by (rule never_invoked)
next
  assume "pl \<in> set (platforms p)"
  from not_ready_result [OF t nr this, of w]
  show "platformResults (final_post (fst (process_post p w))) pl =
          Some \<lparr>pr_success = False, pr_postId = None, pr_error = Some [Txt (pl @ what)]\<rparr>"
    by simp
qed

lemma scenario:
  assumes "platforms p = [''twitter'']" "userId p = Some u"
    "connectedAccounts u ''twitter'' = Some a" "\<not> connected a"
  shows "pstatus (final_post (fst (process_post p w))) = failed \<and>
         platformResults (final_post (fst (process_post p w))) ''twitter'' =
           Some \<lparr>pr_success = False, pr_postId = None,
                 pr_error = Some [Txt ''twitter account not connected'']\<rparr> \<and>
         postsCount (snd (process_post p w)) = postsCount w \<and>
         sent (snd (process_post p w)) = sent w \<and>
         invoked (snd (process_post p w)) = invoked w"
  using assms
  by (auto simp: process_post_def attempts_def platform_task_def not_ready_def ret_def
      any_success_def persist_def save_def db_write_def updated_def recover_def
      settled_value_def record_result_def await_def
      split: prod.splits sum.splits list.splits option.splits)

text \<open>
  Claim C3. Let the post have its owner. For a platform whose account the owner lacks, or whose account has
  \<open>connected = false\<close>, or whose account has no access token or an empty one, the
  platform's attempt is answered at once with \<open>{success: false, error: ...}\<close> and leaves
  the world untouched (no request, no publisher called); the failure is what the post
  carries under that platform; and that platform's publisher is not called at any point of
  the post's processing. In particular a post whose only platform is \<open>twitter\<close>, the
  owner's Twitter account having \<open>connected = false\<close>, ends \<open>failed\<close> with
  \<open>{success: false, error: 'twitter account not connected'}\<close> under \<open>twitter\<close>, no
  counter changed, nothing sent and no publisher called.
\<close>

theorem unready_accounts_fail_without_publishing:
  "(\<forall>u. userId p = Some u \<and> connectedAccounts u platform = None \<longrightarrow>
      refused p platform '' account not found'' w) \<and>
   (\<forall>u a. userId p = Some u \<and> connectedAccounts u platform = Some a \<and> \<not> connected a \<longrightarrow>
      refused p platform '' account not connected'' w) \<and>
   (\<forall>u a. userId p = Some u \<and> connectedAccounts u platform = Some a \<and> connected a \<and>
        falsy_str (accessToken a) \<longrightarrow>
      refused p platform '' account missing access token'' w) \<and>
   (\<forall>u a. platforms p = [''twitter''] \<and> userId p = Some u \<and>
        connectedAccounts u ''twitter'' = Some a \<and>
        \<not> connected a \<longrightarrow>
      pstatus (final_post (fst (process_post p w))) = failed \<and>
      platformResults (final_post (fst (process_post p w))) ''twitter'' =
        Some \<lparr>pr_success = False, pr_postId = None,
              pr_error = Some [Txt ''twitter account not connected'']\<rparr> \<and>
      postsCount (snd (process_post p w)) = postsCount w \<and>
      sent (snd (process_post p w)) = sent w \<and>
      invoked (snd (process_post p w)) = invoked w)"
proof -
  have g1: "\<forall>u. userId p = Some u \<and> connectedAccounts u platform = None \<longrightarrow>
      refused p platform '' account not found'' w"
    by (intro allI impI refusedI)
      (simp_all add: platform_task_def not_ready_def ret_def ready_def)
  have g2: "\<forall>u a. userId p = Some u \<and> connectedAccounts u platform = Some a \<and> \<not> connected a \<longrightarrow>
      refused p platform '' account not connected'' w"
    by (intro allI impI refusedI)
      (simp_all add: platform_task_def not_ready_def ret_def ready_def)
  have g3: "\<forall>u a. userId p = Some u \<and> connectedAccounts u platform = Some a \<and> connected a \<and>
        falsy_str (accessToken a) \<longrightarrow>
      refused p platform '' account missing access token'' w"
    by (intro allI impI refusedI)
      (simp_all add: platform_task_def not_ready_def ret_def ready_def)
  have g4: "\<forall>u a. platforms p = [''twitter''] \<and> userId p = Some u \<and>
        connectedAccounts u ''twitter'' = Some a \<and> \<not> connected a \<longrightarrow>
      pstatus (final_post (fst (process_post p w))) = failed \<and>
      platformResults (final_post (fst (process_post p w))) ''twitter'' =
        Some \<lparr>pr_success = False, pr_postId = None,
              pr_error = Some [Txt ''twitter account not connected'']\<rparr> \<and>
      postsCount (snd (process_post p w)) = postsCount w \<and>
      sent (snd (process_post p w)) = sent w \<and>
      invoked (snd (process_post p w)) = invoked w"
    by (intro allI impI, elim conjE, rule scenario)
  show ?thesis
    by (rule conjI [OF g1 conjI [OF g2 conjI [OF g3 g4]]])
qed

theorem unready_accounts_fail_without_publishing_witness:
  "platforms (draft 2 bob [''twitter'']) = [''twitter''] \<and>
   userId (draft 2 bob [''twitter'']) = Some bob \<and>
   connectedAccounts bob ''twitter'' = Some unlinked \<and>
   \<not> connected unlinked \<and>
   refused (draft 2 bob [''twitter'']) ''twitter'' '' account not connected'' idle \<and>
   final_post (fst (process_post (draft 2 bob [''twitter'']) idle)) = bobs_post \<and>
   postsCount (snd (process_post (draft 2 bob [''twitter'']) idle)) = postsCount idle \<and>
   sent (snd (process_post (draft 2 bob [''twitter'']) idle)) = []"
  using unready_accounts_fail_without_publishing [of "draft 2 bob [''twitter'']" "''twitter''" idle]
  by (simp add: model_defs sample_defs)

section \<open>The count a run reports\<close>

lemma process_loop_count:
  "process_loop start ps n w = ((k, outs), w') \<Longrightarrow>
   k = n + length (filter counted outs) \<and> length outs \<le> length ps \<and>
   (\<forall>i < length outs. \<exists>wi. outs ! i = fst (process_post (ps ! i) wi) \<and>
      (db_faults w = [] \<longrightarrow> db_faults wi = []))"
proof (induction ps arbitrary: n w k outs w')
  case Nil
  then show ?case by simp
next
  case (Cons p ps)
  obtain t w1 where n: "Date_now w = (t, w1)" by (cases "Date_now w")
  note dn = Date_now_store [OF n]
  show ?case
  proof (cases "int t - int start > int MAX_EXECUTION_TIME - 2000")
    case True
    with Cons.prems n show ?thesis by simp
  next
    case False
    obtain out w2 where pp: "process_post p w1 = (out, w2)" by (cases "process_post p w1")
    obtain k' outs' w3 where l:
      "process_loop start ps (if counted out then n + 1 else n) w2 = ((k', outs'), w3)"
      by (cases "process_loop start ps (if counted out then n + 1 else n) w2") auto
    from Cons.prems n False pp l have eq: "k = k'" "outs = out # outs'" by simp_all
    note ih = Cons.IH [OF l]
    have w2: "db_faults w = [] \<longrightarrow> db_faults w2 = []"
      using handled(8) [of w1 p] pp dn by simp
    have "\<exists>wi. outs ! i = fst (process_post ((p # ps) ! i) wi) \<and>
            (db_faults w = [] \<longrightarrow> db_faults wi = [])" if "i < length outs" for i
    proof (cases i)
      case 0
      with pp dn eq have "outs ! i = fst (process_post ((p # ps) ! i) w1) \<and>
            (db_faults w = [] \<longrightarrow> db_faults w1 = [])" by simp
      then show ?thesis by blast
    next
      case (Suc j)
      with that eq have "j < length outs'" by simp
      with ih obtain wi where "outs' ! j = fst (process_post (ps ! j) wi)"
        "db_faults w2 = [] \<longrightarrow> db_faults wi = []" by blast
      with w2 Suc eq have "outs ! i = fst (process_post ((p # ps) ! i) wi) \<and>
            (db_faults w = [] \<longrightarrow> db_faults wi = [])" by simp
      then show ?thesis by blast
    qed
    with ih eq show ?thesis by simp
  qed
qed

lemma run_count:
  assumes "processScheduledPosts w = (Inr (r, outs), w')"
  shows "\<exists>posts. due w = Inr posts \<and> processed r = length (filter counted outs) \<and>
           length outs \<le> length posts \<and>
           (\<forall>i < length outs. \<exists>wi. outs ! i = fst (process_post (posts ! i) wi) \<and>
              (db_faults w = [] \<longrightarrow> db_faults wi = []))"
proof -
  obtain start w1 where s: "Date_now w = (start, w1)" by (cases "Date_now w")
  obtain t w2 where n: "Date_now w1 = (t, w2)" by (cases "Date_now w1")
  note d1 = Date_now_store [OF s] and d2 = Date_now_store [OF n]
  have dbc: "db_connect w1 = None"
    using assms s by (auto simp: processScheduledPosts_def split: option.splits)
  obtain posts where d: "due w2 = Inr posts"
    using assms s n dbc
    by (auto simp: processScheduledPosts_def split: option.splits sum.splits prod.splits)
  from d d1 d2 have dw: "due w = Inr posts" by simp
  from assms s n dbc d have run: "run_posts posts start w2 = ((r, outs), w')"
    by (auto simp: processScheduledPosts_def split: prod.splits)
  show ?thesis
  proof (cases "posts = []")
    case True
    with run dw show ?thesis by (auto simp: run_posts_def)
  next
    case False
    obtain k outs' w3 where l: "process_loop start posts 0 w2 = ((k, outs'), w3)"
      by (cases "process_loop start posts 0 w2") auto
    with run False have eq: "processed r = k" "outs = outs'"
      by (auto simp: run_posts_def)
    from d1 d2 have "db_faults w2 = db_faults w" by simp
    with process_loop_count [OF l] eq dw show ?thesis by simp
  qed
qed

lemma rejected_none: "db_faults w = [] \<Longrightarrow> rejected n w = 0"
  by (simp add: rejected_def)

text \<open>
  Claim C10 does not hold when the store rejects a write. In \<open>lost_run\<close> the one due
  post is Alice's; its Twitter attempt succeeds, so the post has a successful platform
  attempt; the store then rejects the update of the counter, the \<open>catch\<close> block marks the
  post \<open>failed\<close>, and the run returns \<open>processed = 0\<close>.
\<close>

theorem successful_attempt_not_counted:
  "due lost_run = Inr [draft 1 alice [''twitter'']] \<and>
   fst (attempts (draft 1 alice [''twitter'']) (lost_run\<lparr>clock := [1000]\<rparr>)) =
     [Inr (''twitter'',
           \<lparr>success = True, postId = Some [Txt ''1''], post_url = None, error = None\<rparr>)] \<and>
   fst (processScheduledPosts lost_run) =
     Inr (\<lparr>processed = 0, run_message = [Txt ''Processed '', Num 0, Txt '' posts'']\<rparr>,
          [ErrorProcessing
             (tweeted_post\<lparr>pstatus := failed,
                           errorMessage := Some [Txt ''store unreachable'']\<rparr>)]) \<and>
   platformResults tweeted_post ''twitter'' =
     Some \<lparr>pr_success = True, pr_postId = Some [Txt ''1''], pr_error = None\<rparr>"
  by (simp add: processScheduledPosts_def run_posts_def MAX_EXECUTION_TIME_def
      model_defs sample_defs)

text \<open>
  Claim C10, amended. Let a run return. The \<open>processed\<close> count it returns, which the
  endpoint then reports, is the number of posts of the run that ended \<open>published\<close>. The
  outcomes are those of the due posts, in their order, up to the post at which the time
  limit stopped the loop; and a post ends \<open>published\<close> exactly when at least one of its
  platform attempts succeeded and the store rejected neither the write of the post nor
  the update of the counter, otherwise it ends \<open>failed\<close>. So as long as the store rejects
  no write, the count is the number of posts with at least one successful attempt. Posts
  that end \<open>failed\<close> are left out of the count, whether all their attempts failed or a
  store write was rejected after a successful attempt, and a run all of whose posts end
  \<open>failed\<close> reports 0.
\<close>

theorem processed_counts_published_posts:
  assumes "processScheduledPosts w = (Inr (r, outs), w')"
  shows "processed r = length (filter (\<lambda>out. pstatus (final_post out) = published) outs) \<and>
         (\<exists>posts. due w = Inr posts \<and> length outs \<le> length posts \<and>
            (\<forall>i < length outs. \<exists>wi.
               outs ! i = fst (process_post (posts ! i) wi) \<and>
               (pstatus (final_post (outs ! i)) = published) =
                 ((\<exists>platform res.
                     Inr (platform, res) \<in> set (fst (attempts (posts ! i) wi)) \<and>
                     success res) \<and>
                  rejected 2 wi = 0) \<and>
               (pstatus (final_post (outs ! i)) = published \<or>
                pstatus (final_post (outs ! i)) = failed) \<and>
               (db_faults w = [] \<longrightarrow> rejected 2 wi = 0))) \<and>
         ((\<forall>out \<in> set outs. pstatus (final_post out) = failed) \<longrightarrow> processed r = 0) \<and>
         respond (Inr r) = Ok200 (run_message r) (processed r)"
proof -
  from run_count [OF assms] obtain posts where
    d: "due w = Inr posts" and k: "processed r = length (filter counted outs)"
    and len: "length outs \<le> length posts"
    and each: "\<forall>i < length outs. \<exists>wi. outs ! i = fst (process_post (posts ! i) wi) \<and>
              (db_faults w = [] \<longrightarrow> db_faults wi = [])"
    by blast
  have c: "counted out = (pstatus (final_post out) = published)" if "out \<in> set outs" for out
  proof -
    from that obtain i where i: "i < length outs" "out = outs ! i"
      by (auto simp: in_set_conv_nth)
    with each obtain wi where "out = fst (process_post (posts ! i) wi)" by blast
    then show ?thesis
      using handled(1) [of "posts ! i" wi] handled(3) [of "posts ! i" wi] by simp
  qed
  then have f: "filter counted outs = filter (\<lambda>out. pstatus (final_post out) = published) outs"
    by (intro filter_cong) auto
  have e: "\<exists>wi.
               outs ! i = fst (process_post (posts ! i) wi) \<and>
               (pstatus (final_post (outs ! i)) = published) =
                 ((\<exists>platform res.
                     Inr (platform, res) \<in> set (fst (attempts (posts ! i) wi)) \<and>
                     success res) \<and>
                  rejected 2 wi = 0) \<and>
               (pstatus (final_post (outs ! i)) = published \<or>
                pstatus (final_post (outs ! i)) = failed) \<and>
               (db_faults w = [] \<longrightarrow> rejected 2 wi = 0)" if "i < length outs" for i
  proof -
    from each that obtain wi where o: "outs ! i = fst (process_post (posts ! i) wi)"
      "db_faults w = [] \<longrightarrow> db_faults wi = []" by blast
    have "(pstatus (final_post (outs ! i)) = published) =
                 ((\<exists>platform res.
                     Inr (platform, res) \<in> set (fst (attempts (posts ! i) wi)) \<and>
                     success res) \<and>
                  rejected 2 wi = 0)"
      using handled(1) [of "posts ! i" wi] o(1) by (simp add: any_success_iff)
    moreover have "pstatus (final_post (outs ! i)) = published \<or>
                pstatus (final_post (outs ! i)) = failed"
      using handled(1) [of "posts ! i" wi] o(1) by simp
    moreover have "db_faults w = [] \<longrightarrow> rejected 2 wi = 0"
      using o(2) by (simp add: rejected_none)
    ultimately show ?thesis using o(1) by blast
  qed
  have zero: "(\<forall>out \<in> set outs. pstatus (final_post out) = failed) \<longrightarrow> processed r = 0"
    using k f by (auto simp: filter_empty_conv)
  from k f d len e zero show ?thesis by (simp add: respond_def)
qed

lemma mixed_run_result:
  "fst (processScheduledPosts mixed_run) =
     Inr (\<lparr>processed = 1, run_message = [Txt ''Processed '', Num 1, Txt '' posts'']\<rparr>,
          [Processed tweeted_post True, Processed bobs_post False])"
  by (simp add: processScheduledPosts_def run_posts_def MAX_EXECUTION_TIME_def
      model_defs sample_defs)

theorem processed_counts_published_posts_witness:
  "fst (processScheduledPosts mixed_run) =
     Inr (\<lparr>processed = 1, run_message = [Txt ''Processed '', Num 1, Txt '' posts'']\<rparr>,
          [Processed tweeted_post True, Processed bobs_post False]) \<and>
   due mixed_run = Inr [draft 1 alice [''twitter''], draft 2 bob [''twitter'']] \<and>
   pstatus tweeted_post = published \<and> pstatus bobs_post = failed \<and>
   length (filter (\<lambda>out. pstatus (final_post out) = published)
             [Processed tweeted_post True, Processed bobs_post False]) = 1 \<and>
   respond (Inr \<lparr>processed = 1, run_message = [Txt ''Processed '', Num 1, Txt '' posts'']\<rparr>) =
     Ok200 [Txt ''Processed '', Num 1, Txt '' posts''] 1"
  using processed_counts_published_posts
    [of mixed_run "\<lparr>processed = 1, run_message = [Txt ''Processed '', Num 1, Txt '' posts'']\<rparr>"
        "[Processed tweeted_post True, Processed bobs_post False]"
        "snd (processScheduledPosts mixed_run)"]
    mixed_run_result
  by (simp add: prod_eq_iff tweeted_post_def bobs_post_def mixed_run_def)

section \<open>Reddit: what is sent for which media\<close>

lemma try_catch_await:
  "try_catch (await m f) h w =
     (case m w of (Inl e, w1) \<Rightarrow> h e w1 | (Inr a, w1) \<Rightarrow> try_catch (f a) h w1)"
  by (simp add: try_catch_def await_def split: prod.splits sum.splits)

lemma lease_upload_sent:
  "lease_upload a b u token w = (Inr (lease, aid), w1) \<Longrightarrow>
   \<exists>action fs buf. sent w1 = sent w @ [lease_request token, download_request u,
                                        storage_request action fs buf]"
  unfolding lease_upload_def
  by (auto simp: io_defs split: sum.splits option.splits list.splits if_splits) blast

lemma asset_sent:
  assumes "uploadImageToRedditAsset u token w = (Inr (aid, imageUrl), w1)"
  shows "\<exists>action fs buf key.
           sent w1 = sent w @ [lease_request token, download_request u,
                               storage_request action fs buf] \<and>
           imageUrl = redditImageUrl key"
proof -
  obtain r w2 where l: "lease_upload ''Failed to get asset upload lease: ''
      ''Failed to upload image: '' u token w = (r, w2)"
    by (cases "lease_upload ''Failed to get asset upload lease: ''
      ''Failed to upload image: '' u token w")
  with assms obtain lease aid' where r: "r = Inr (lease, aid')"
    by (cases r) (auto simp: uploadImageToRedditAsset_def await_def)
  from assms l r have "w1 = w2" "\<exists>key. imageUrl = redditImageUrl key"
    by (auto simp: uploadImageToRedditAsset_def io_defs split: sum.splits)
  with lease_upload_sent [OF l [unfolded r]] show ?thesis by blast
qed

lemma gallery_upload_sent:
  assumes "uploadMediaForGallery u token w = (Inr mediaId, w1)"
  shows "\<exists>action fs buf.
           sent w1 = sent w @ [lease_request token, download_request u,
                               storage_request action fs buf]"
proof -
  obtain r w2 where l: "lease_upload ''Failed to get gallery upload lease: ''
      ''Failed to upload gallery image: '' u token w = (r, w2)"
    by (cases "lease_upload ''Failed to get gallery upload lease: ''
      ''Failed to upload gallery image: '' u token w")
  with assms obtain lease aid' where r: "r = Inr (lease, aid')"
    by (cases r) (auto simp: uploadMediaForGallery_def await_def)
  from assms l r have "w1 = w2"
    by (auto simp: uploadMediaForGallery_def io_defs split: sum.splits)
  with lease_upload_sent [OF l [unfolded r]] show ?thesis by blast
qed

lemma gallery_loop_sent:
  "gallery_loop ms token acc w = (Inr galleryItems, w1) \<Longrightarrow>
   \<exists>ids ups.
     galleryItems = acc @ map gallery_item ids \<and> length ids = length ms \<and>
     sent w1 = sent w @ concat ups \<and> length ups = length ms \<and>
     (\<forall>i < length ms. \<exists>action fs buf.
        ups ! i = [lease_request token, download_request (optp (ms ! i) ''cloudinaryUrl''),
                   storage_request action fs buf])"
proof (induction ms arbitrary: acc w)
  case Nil
  then have "galleryItems = acc @ map gallery_item [] \<and> length ([]::jsval list) = length ([]::jsval list) \<and>
     sent w1 = sent w @ concat [] \<and> length ([]::request list list) = length ([]::jsval list)"
    by (simp add: ret_def)
  then show ?case by (metis length_0_conv less_nat_zero_code list.size(3))
next
  case (Cons m ms)
  from Cons.prems obtain u where u: "getp m ''cloudinaryUrl'' = Inr u"
    by (cases "getp m ''cloudinaryUrl''") (auto simp: throw_def)
  then have ou: "optp m ''cloudinaryUrl'' = u" by (simp add: optp_def)
  obtain r w2 where up: "uploadMediaForGallery u token w = (r, w2)"
    by (cases "uploadMediaForGallery u token w")
  with Cons.prems u obtain mediaId where r: "r = Inr mediaId"
    by (cases r) (auto simp: await_def)
  from Cons.prems u up r have rest:
    "gallery_loop ms token (acc @ [gallery_item mediaId]) w2 = (Inr galleryItems, w1)"
    by (simp add: await_def)
  from gallery_upload_sent [OF up [unfolded r]] obtain action fs buf where
    s2: "sent w2 = sent w @ [lease_request token, download_request u,
                             storage_request action fs buf]"
    by blast
  from Cons.IH [OF rest] obtain ids ups where ih:
    "galleryItems = (acc @ [gallery_item mediaId]) @ map gallery_item ids"
    "length ids = length ms" "sent w1 = sent w2 @ concat ups" "length ups = length ms"
    "\<forall>i < length ms. \<exists>action fs buf.
        ups ! i = [lease_request token, download_request (optp (ms ! i) ''cloudinaryUrl''),
                   storage_request action fs buf]"
    by blast
  let ?up = "[lease_request token, download_request u, storage_request action fs buf]"
  have "\<forall>i < length (m # ms). \<exists>action fs buf.
        (?up # ups) ! i = [lease_request token,
                           download_request (optp ((m # ms) ! i) ''cloudinaryUrl''),
                           storage_request action fs buf]"
  proof (intro allI impI)
    fix i assume "i < length (m # ms)"
    then show "\<exists>action fs buf.
        (?up # ups) ! i = [lease_request token,
                           download_request (optp ((m # ms) ! i) ''cloudinaryUrl''),
                           storage_request action fs buf]"
      using ih(5) ou by (cases i) auto
  qed
  moreover have "galleryItems = acc @ map gallery_item (mediaId # ids)"
    "length (mediaId # ids) = length (m # ms)"
    "sent w1 = sent w @ concat (?up # ups)" "length (?up # ups) = length (m # ms)"
    using ih s2 by simp_all
  ultimately show ?case by blast
qed

lemma submit_sent:
  "sent (snd (try_catch (gallery_submit c token sub galleryItems) (\<lambda>e. ret (failure e)) w)) =
     sent w @ [gallery_request token (gallery_post (subreddit_of sub) c galleryItems)]"
  "sent (snd (try_catch (image_submit c token sub imageUrl) (\<lambda>e. ret (failure e)) w)) =
     sent w @ [submit_request token (image_post (subreddit_of sub) c imageUrl)]"
  "sent (snd (try_catch (text_branch c token sub) (\<lambda>e. ret (failure e)) w)) =
     sent w @ [submit_request token (self_post (subreddit_of sub) c)]"
  "sent (snd (try_catch (other_media_branch c token sub) (\<lambda>e. ret (failure e)) w)) =
     sent w @ [submit_request token (self_post (subreddit_of sub) c)]"
  unfolding gallery_submit_def image_submit_def text_branch_def other_media_branch_def
    check_errors_def
  by (auto simp: io_defs split: sum.splits option.splits list.splits if_splits)

lemma reddit_text:
  "\<not> has_media m \<Longrightarrow>
   postToReddit c token m ua sub w =
     try_catch (text_branch c token sub) (\<lambda>e. ret (failure e)) w"
  by (simp add: postToReddit_def postToReddit_try_def)

lemma reddit_gallery:
  "isArray m \<Longrightarrow> 1 < length (elems m) \<Longrightarrow>
   postToReddit c token m ua sub w =
     (case gallery_loop (elems m) token [] w of
        (Inl e, w1) \<Rightarrow> (Inr (failure e), w1)
      | (Inr galleryItems, w1) \<Rightarrow>
          try_catch (gallery_submit c token sub galleryItems) (\<lambda>e. ret (failure e)) w1)"
  by (cases m)
    (auto simp: postToReddit_def postToReddit_try_def gallery_branch_def has_media_def
      isArray_def elems_def try_catch_await ret_def split: prod.splits sum.splits)

lemma reddit_image:
  "getp item ''cloudinaryUrl'' = Inr u \<Longrightarrow>
   postToReddit c token (JArr [item]) ua sub w =
     (case uploadImageToRedditAsset u token w of
        (Inl e, w1) \<Rightarrow> (Inr (failure e), w1)
      | (Inr uploadResult, w1) \<Rightarrow>
          try_catch (image_submit c token sub (snd uploadResult)) (\<lambda>e. ret (failure e)) w1)"
  by (auto simp: postToReddit_def postToReddit_try_def image_branch_def has_media_def
      isArray_def elems_def try_catch_await ret_def split: prod.splits sum.splits)

lemma kinds:
  "map_of (self_post s c) ''kind'' = Some [Txt ''self'']"
  "map_of (image_post s c u) ''kind'' = Some [Txt ''image''] \<and>
   map_of (image_post s c u) ''url'' = Some u"
  "getp (gallery_post s c galleryItems) ''kind'' = Inr (JStr ''gallery'') \<and>
   getp (gallery_post s c galleryItems) ''items'' = Inr (JArr galleryItems)"
  by (simp_all add: self_post_def image_post_def gallery_post_def)

text \<open>
  Media given as an array is routed by the number of its items. With an empty array
  \<open>postToReddit\<close> sends one request, a submission of kind \<open>self\<close>. With an array of one
  item it uploads the item (a lease, the download of the image, the form sent to the
  storage the lease names) and, the upload done, sends one submission of kind \<open>image\<close>
  whose \<open>url\<close> is the URL of the uploaded asset (the storage key of the lease under
  Reddit's media host). With an array of two or more items it uploads each item in turn
  by the same three requests and, the uploads done, sends one gallery submission whose
  items carry the media identifiers obtained, one per item and in order. An upload that
  fails ends the call as a failure with nothing submitted.
\<close>

lemma reddit_array_routes:
  "sent (snd (postToReddit c token (JArr []) ua sub w)) =
     sent w @ [submit_request token (self_post (subreddit_of sub) c)] \<and>
   map_of (self_post (subreddit_of sub) c) ''kind'' = Some [Txt ''self''] \<and>
   (\<forall>item u.
      getp item ''cloudinaryUrl'' = Inr u \<longrightarrow>
      (\<forall>aid imageUrl w1.
         uploadImageToRedditAsset u token w = (Inr (aid, imageUrl), w1) \<longrightarrow>
         (\<exists>action fs buf k.
            sent w1 = sent w @ [lease_request token, download_request u,
                                storage_request action fs buf] \<and>
            imageUrl = redditImageUrl k) \<and>
         sent (snd (postToReddit c token (JArr [item]) ua sub w)) =
           sent w1 @ [submit_request token (image_post (subreddit_of sub) c imageUrl)] \<and>
         map_of (image_post (subreddit_of sub) c imageUrl) ''kind'' = Some [Txt ''image''] \<and>
         map_of (image_post (subreddit_of sub) c imageUrl) ''url'' = Some imageUrl) \<and>
      (\<forall>e w1.
         uploadImageToRedditAsset u token w = (Inl e, w1) \<longrightarrow>
         postToReddit c token (JArr [item]) ua sub w = (Inr (failure e), w1))) \<and>
   (\<forall>x y zs.
      (\<forall>galleryItems w1.
         gallery_loop (x # y # zs) token [] w = (Inr galleryItems, w1) \<longrightarrow>
         (\<exists>ids ups.
            galleryItems = map gallery_item ids \<and> length ids = length (x # y # zs) \<and>
            sent w1 = sent w @ concat ups \<and> length ups = length (x # y # zs) \<and>
            (\<forall>i < length (x # y # zs). \<exists>action fs buf.
               ups ! i = [lease_request token,
                          download_request (optp ((x # y # zs) ! i) ''cloudinaryUrl''),
                          storage_request action fs buf])) \<and>
         sent (snd (postToReddit c token (JArr (x # y # zs)) ua sub w)) =
           sent w1 @ [gallery_request token
                        (gallery_post (subreddit_of sub) c galleryItems)] \<and>
         getp (gallery_post (subreddit_of sub) c galleryItems) ''kind'' =
           Inr (JStr ''gallery'') \<and>
         getp (gallery_post (subreddit_of sub) c galleryItems) ''items'' =
           Inr (JArr galleryItems)) \<and>
      (\<forall>e w1.
         gallery_loop (x # y # zs) token [] w = (Inl e, w1) \<longrightarrow>
         postToReddit c token (JArr (x # y # zs)) ua sub w = (Inr (failure e), w1)))"
proof -
  have g0: "sent (snd (postToReddit c token (JArr []) ua sub w)) =
     sent w @ [submit_request token (self_post (subreddit_of sub) c)]"
    by (simp add: reddit_text has_media_def isArray_def elems_def optp_def submit_sent)
  have g1: "(\<exists>action fs buf k.
            sent w1 = sent w @ [lease_request token, download_request u,
                                storage_request action fs buf] \<and>
            imageUrl = redditImageUrl k) \<and>
         sent (snd (postToReddit c token (JArr [item]) ua sub w)) =
           sent w1 @ [submit_request token (image_post (subreddit_of sub) c imageUrl)] \<and>
         map_of (image_post (subreddit_of sub) c imageUrl) ''kind'' = Some [Txt ''image''] \<and>
         map_of (image_post (subreddit_of sub) c imageUrl) ''url'' = Some imageUrl"
    if "getp item ''cloudinaryUrl'' = Inr u"
      "uploadImageToRedditAsset u token w = (Inr (aid, imageUrl), w1)"
    for item u aid imageUrl w1
    using asset_sent [OF that(2)] that
    by (simp add: reddit_image submit_sent kinds)
  have g1': "postToReddit c token (JArr [item]) ua sub w = (Inr (failure e), w1)"
    if "getp item ''cloudinaryUrl'' = Inr u"
      "uploadImageToRedditAsset u token w = (Inl e, w1)" for item u e w1
    using that by (simp add: reddit_image)
  have g2: "(\<exists>ids ups.
            galleryItems = map gallery_item ids \<and> length ids = length (x # y # zs) \<and>
            sent w1 = sent w @ concat ups \<and> length ups = length (x # y # zs) \<and>
            (\<forall>i < length (x # y # zs). \<exists>action fs buf.
               ups ! i = [lease_request token,
                          download_request (optp ((x # y # zs) ! i) ''cloudinaryUrl''),
                          storage_request action fs buf])) \<and>
         sent (snd (postToReddit c token (JArr (x # y # zs)) ua sub w)) =
           sent w1 @ [gallery_request token
                        (gallery_post (subreddit_of sub) c galleryItems)] \<and>
         getp (gallery_post (subreddit_of sub) c galleryItems) ''kind'' =
           Inr (JStr ''gallery'') \<and>
         getp (gallery_post (subreddit_of sub) c galleryItems) ''items'' =
           Inr (JArr galleryItems)"
    if "gallery_loop (x # y # zs) token [] w = (Inr galleryItems, w1)"
    for x y zs galleryItems w1
  proof -
    have "sent (snd (postToReddit c token (JArr (x # y # zs)) ua sub w)) =
           sent w1 @ [gallery_request token
                        (gallery_post (subreddit_of sub) c galleryItems)]"
      using that
      by (simp add: reddit_gallery [of "JArr (x # y # zs)"] isArray_def elems_def submit_sent)
    with gallery_loop_sent [OF that] show ?thesis
      by (simp add: kinds)
  qed
  have g2': "postToReddit c token (JArr (x # y # zs)) ua sub w = (Inr (failure e), w1)"
    if "gallery_loop (x # y # zs) token [] w = (Inl e, w1)" for x y zs e w1
    using that
    by (simp add: reddit_gallery [of "JArr (x # y # zs)"] isArray_def elems_def)
  from g0 g1 g1' g2 g2' show ?thesis
    by (intro conjI allI impI kinds) blast+
qed

lemmas reddit_defs = postToReddit_def postToReddit_try_def gallery_branch_def image_branch_def
  other_media_branch_def text_branch_def gallery_submit_def image_submit_def
  uploadImageToRedditAsset_def uploadMediaForGallery_def lease_upload_def forEach_fields_def
  has_media_def isArray_def elems_def optp_def js_or_def to_jstr_def check_errors_def
  api_errors_def data_of_def or_empty_def succeeded_def failure_def subreddit_of_def trim_def
  is_space_def ok_def io_defs redditImageUrl_def
  idle_def answer_def reply_def fine_def leased_def picture_def submitted_def page_only_def
  rate_limited_def

lemma reddit_array_routes_instance:
  "sent (snd (postToReddit ''hello'' (Some ''token'') (JArr []) None (Some ''test'')
                (idle\<lparr>net := [submitted]\<rparr>))) =
     [submit_request (Some ''token'') (self_post ''test'' ''hello'')] \<and>
   sent (snd (postToReddit ''hello'' (Some ''token'') (JArr [picture ''https://cdn/a.jpg''])
                None (Some ''test'')
                (idle\<lparr>net := [leased ''k1'' ''asset1'', fine, fine, submitted]\<rparr>))) =
     [lease_request (Some ''token''), download_request (JStr ''https://cdn/a.jpg''),
      storage_request (JStr ''//reddit-uploaded-media.s3/'') [([Txt ''key''], [Txt ''k1''])] [],
      submit_request (Some ''token'')
        (image_post ''test'' ''hello'' (redditImageUrl (JStr ''k1'')))] \<and>
   sent (snd (postToReddit ''hello'' (Some ''token'')
                (JArr [picture ''https://cdn/a.jpg'', picture ''https://cdn/b.jpg''])
                None (Some ''test'')
                (idle\<lparr>net := [leased ''k1'' ''asset1'', fine, fine,
                                leased ''k2'' ''asset2'', fine, fine, submitted]\<rparr>))) =
     [lease_request (Some ''token''), download_request (JStr ''https://cdn/a.jpg''),
      storage_request (JStr ''//reddit-uploaded-media.s3/'') [([Txt ''key''], [Txt ''k1''])] [],
      lease_request (Some ''token''), download_request (JStr ''https://cdn/b.jpg''),
      storage_request (JStr ''//reddit-uploaded-media.s3/'') [([Txt ''key''], [Txt ''k2''])] [],
      gallery_request (Some ''token'')
        (gallery_post ''test'' ''hello''
           [gallery_item (JStr ''asset1''), gallery_item (JStr ''asset2'')])]"
  using reddit_array_routes
    [of "''hello''" "Some ''token''" None "Some ''test''" "idle\<lparr>net := [submitted]\<rparr>"]
    reddit_array_routes
    [of "''hello''" "Some ''token''" None "Some ''test''"
        "idle\<lparr>net := [leased ''k1'' ''asset1'', fine, fine, submitted]\<rparr>"]
    reddit_array_routes
    [of "''hello''" "Some ''token''" None "Some ''test''"
        "idle\<lparr>net := [leased ''k1'' ''asset1'', fine, fine,
                        leased ''k2'' ''asset2'', fine, fine, submitted]\<rparr>"]
  by (simp add: reddit_defs)

text \<open>
  Claim C6 fails for media that is not an array. The scheduling endpoint stores the
  media of a post that came with one image outside an array as the single object
  \<open>{hasMedia: true, cloudinaryUrl: ...}\<close>. \<open>postToReddit\<close> takes that object for media
  (\<open>media.hasMedia\<close> is true) and then handles arrays only: for the object it takes no
  lease, downloads and uploads nothing, and sends one request, a submission of kind
  \<open>self\<close> with the text alone, which it reports as a success. The image is dropped. The
  same image given as an array of one is uploaded by the three requests of the lease
  protocol and submitted as kind \<open>image\<close> with the URL of the uploaded asset.
\<close>

theorem reddit_single_object_media_dropped:
  "postToReddit ''hello'' (Some ''token'')
     (JObj [(''hasMedia'', JBool True), (''cloudinaryUrl'', JStr ''https://cdn/a.jpg'')])
     None (Some ''test'') (idle\<lparr>net := [submitted]\<rparr>) =
   (Inr \<lparr>success = True, postId = Some [Txt ''t3_a''], post_url = Some [Txt []],
         error = None\<rparr>,
    idle\<lparr>net := [],
         sent := [\<lparr>meth = ''POST'', url = [Txt ''https://oauth.reddit.com/api/submit''],
                   auth = Bearer ''token'', extra_headers = JUndef,
                   body = FormUrl [(''api_type'', [Txt ''json'']), (''kind'', [Txt ''self'']),
                                   (''sr'', [Txt ''test'']), (''title'', [Txt ''hello'']),
                                   (''text'', [Txt ''hello''])]\<rparr>]\<rparr>) \<and>
   postToReddit ''hello'' (Some ''token'')
     (JArr [JObj [(''hasMedia'', JBool True), (''cloudinaryUrl'', JStr ''https://cdn/a.jpg'')]])
     None (Some ''test'') (idle\<lparr>net := [leased ''k1'' ''asset1'', fine, fine, submitted]\<rparr>) =
   (Inr \<lparr>success = True, postId = Some [Txt ''t3_a''], post_url = Some [Txt []],
         error = None\<rparr>,
    idle\<lparr>net := [],
         sent := [\<lparr>meth = ''POST'',
                   url = [Txt ''https://oauth.reddit.com/api/media/asset.json''],
                   auth = Bearer ''token'', extra_headers = JUndef,
                   body = FormUrl [(''filepath'', [Txt ''image.jpg'']),
                                   (''mimetype'', [Txt ''image/jpeg''])]\<rparr>,
                  \<lparr>meth = ''GET'', url = [Txt ''https://cdn/a.jpg''], auth = NoAuth,
                   extra_headers = JUndef, body = NoBody\<rparr>,
                  \<lparr>meth = ''POST'', url = [Txt ''https:'', Txt ''//reddit-uploaded-media.s3/''],
                   auth = NoAuth, extra_headers = JUndef,
                   body = Multipart [([Txt ''key''], [Txt ''k1''])] []\<rparr>,
                  \<lparr>meth = ''POST'', url = [Txt ''https://oauth.reddit.com/api/submit''],
                   auth = Bearer ''token'', extra_headers = JUndef,
                   body = FormUrl
                     [(''api_type'', [Txt ''json'']), (''kind'', [Txt ''image'']),
                      (''sr'', [Txt ''test'']), (''title'', [Txt ''hello'']),
                      (''url'',
                       [Txt ''https://reddit-uploaded-media.s3-accelerate.amazonaws.com/'',
                        Txt ''k1''])]\<rparr>]\<rparr>)"
  by (simp add: reddit_defs submit_request_def self_post_def image_post_def lease_request_def
      download_request_def storage_request_def bearer_def)

lemma submit_step:
  assumes "net w = Inr resp # rest" "ok resp" "json resp = Some result"
    "getp result ''json'' = Inr j"
  shows "try_catch (text_branch c token sub) (\<lambda>e. ret (failure e)) w =
           (if api_errors j
            then Inr (failure (Error [Txt ''Reddit API error: '', Json (optp j ''errors'')]))
            else if \<not> truthy (data_of j ''id'')
            then Inr (failure (Error [Txt ''Reddit post failed - no post ID returned'']))
            else Inr (succeeded (data_of j ''id'') (or_empty (data_of j ''url''))),
            w\<lparr>net := rest,
              sent := sent w @ [submit_request token (self_post (subreddit_of sub) c)]\<rparr>)"
    and "try_catch (gallery_submit c token sub galleryItems) (\<lambda>e. ret (failure e)) w =
           (if api_errors j
            then Inr (failure (Error [Txt ''Reddit API error: '', Json (optp j ''errors'')]))
            else if \<not> truthy (data_of j ''id'')
            then Inr (failure (Error [Txt ''Reddit post failed - no post ID returned'']))
            else Inr (succeeded (data_of j ''id'') (or_empty (data_of j ''url''))),
            w\<lparr>net := rest,
              sent := sent w @ [gallery_request token
                                  (gallery_post (subreddit_of sub) c galleryItems)]\<rparr>)"
    and "try_catch (image_submit c token sub imageUrl) (\<lambda>e. ret (failure e)) w =
           (if api_errors j
            then Inr (failure (Error [Txt ''Reddit API error: '', Json (optp j ''errors'')]))
            else if \<not> truthy (data_of j ''id'') \<and> \<not> truthy (data_of j ''user_submitted_page'')
            then Inr (failure
                        (Error [Txt ''Reddit post failed - no post confirmation returned'']))
            else Inr (succeeded
                        (js_or (data_of j ''id'')
                           (js_or (data_of j ''name'') (JStr ''unknown'')))
                        (or_empty (js_or (data_of j ''url'')
                                     (data_of j ''user_submitted_page'')))),
            w\<lparr>net := rest,
              sent := sent w @ [submit_request token
                                  (image_post (subreddit_of sub) c imageUrl)]\<rparr>)"
    and "try_catch (other_media_branch c token sub) (\<lambda>e. ret (failure e)) w =
           (Inr (succeeded (js_or (data_of j ''id'') (JStr ''unknown''))
                   (or_empty (data_of j ''url''))),
            w\<lparr>net := rest,
              sent := sent w @ [submit_request token (self_post (subreddit_of sub) c)]\<rparr>)"
  using assms
  by (simp_all add: text_branch_def gallery_submit_def image_submit_def other_media_branch_def
      check_errors_def io_defs)

lemma error_array: "optp j ''errors'' = JArr (x # xs) \<Longrightarrow> api_errors j"
  by (simp add: api_errors_def optp_def)

section \<open>Reddit: reading the answer to a submission\<close>

text \<open>
  Claim C7, as amended. Let Reddit answer a submission with a 2xx response whose body is
  JSON with a \<open>json\<close> member. On the branch without media and on the gallery branch
  (the uploads done): a non-empty \<open>errors\<close> array makes \<open>postToReddit\<close> return a
  failure whose message is \<open>Reddit API error: \<close> followed by the serialized array, and a
  missing \<open>data.id\<close> makes it return a failure. On the single image branch (the upload
  done): a non-empty \<open>errors\<close> array makes it return that same failure; a missing
  \<open>data.id\<close> makes it return a failure when \<open>data.user_submitted_page\<close> is missing
  too, and otherwise, without errors, a success whose \<open>postId\<close> is \<open>data.name\<close> or
  \<open>'unknown'\<close>.
\<close>

theorem reddit_submit_response_checked:
  assumes "net w = Inr resp # rest" and "ok resp" and "json resp = Some result"
    and "getp result ''json'' = Inr j"
  shows
    "(optp j ''errors'' = JArr (x # xs) \<longrightarrow>
        (\<not> has_media m \<longrightarrow>
           fst (postToReddit c token m ua sub w) =
             Inr (failure (Error [Txt ''Reddit API error: '', Json (JArr (x # xs))]))) \<and>
        (isArray m \<and> 1 < length (elems m) \<and>
         gallery_loop (elems m) token [] w0 = (Inr galleryItems, w) \<longrightarrow>
           fst (postToReddit c token m ua sub w0) =
             Inr (failure (Error [Txt ''Reddit API error: '', Json (JArr (x # xs))]))) \<and>
        (m = JArr [item] \<and> getp item ''cloudinaryUrl'' = Inr u \<and>
         uploadImageToRedditAsset u token w0 = (Inr up, w) \<longrightarrow>
           fst (postToReddit c token m ua sub w0) =
             Inr (failure (Error [Txt ''Reddit API error: '', Json (JArr (x # xs))])))) \<and>
     (\<not> truthy (data_of j ''id'') \<longrightarrow>
        (\<not> has_media m \<longrightarrow>
           (\<exists>e. fst (postToReddit c token m ua sub w) = Inr (failure e))) \<and>
        (isArray m \<and> 1 < length (elems m) \<and>
         gallery_loop (elems m) token [] w0 = (Inr galleryItems, w) \<longrightarrow>
           (\<exists>e. fst (postToReddit c token m ua sub w0) = Inr (failure e))) \<and>
        (m = JArr [item] \<and> getp item ''cloudinaryUrl'' = Inr u \<and>
         uploadImageToRedditAsset u token w0 = (Inr up, w) \<longrightarrow>
           (\<not> truthy (data_of j ''user_submitted_page'') \<longrightarrow>
              (\<exists>e. fst (postToReddit c token m ua sub w0) = Inr (failure e))) \<and>
           (\<not> api_errors j \<and> truthy (data_of j ''user_submitted_page'') \<longrightarrow>
              fst (postToReddit c token m ua sub w0) =
                Inr (succeeded (js_or (data_of j ''name'') (JStr ''unknown''))
                       (or_empty (js_or (data_of j ''url'')
                                    (data_of j ''user_submitted_page'')))))))"
proof -
  note step = submit_step [OF assms]
  have plain: "fst (postToReddit c token m ua sub w) =
      (if api_errors j
       then Inr (failure (Error [Txt ''Reddit API error: '', Json (optp j ''errors'')]))
       else if \<not> truthy (data_of j ''id'')
       then Inr (failure (Error [Txt ''Reddit post failed - no post ID returned'']))
       else Inr (succeeded (data_of j ''id'') (or_empty (data_of j ''url''))))"
    if "\<not> has_media m"
    using that by (simp add: reddit_text step(1))
  have multi: "fst (postToReddit c token m ua sub w0) =
      (if api_errors j
       then Inr (failure (Error [Txt ''Reddit API error: '', Json (optp j ''errors'')]))
       else if \<not> truthy (data_of j ''id'')
       then Inr (failure (Error [Txt ''Reddit post failed - no post ID returned'']))
       else Inr (succeeded (data_of j ''id'') (or_empty (data_of j ''url''))))"
    if "isArray m \<and> 1 < length (elems m) \<and>
        gallery_loop (elems m) token [] w0 = (Inr galleryItems, w)"
    using that by (simp add: reddit_gallery step(2))
  have single: "fst (postToReddit c token m ua sub w0) =
      (if api_errors j
       then Inr (failure (Error [Txt ''Reddit API error: '', Json (optp j ''errors'')]))
       else if \<not> truthy (data_of j ''id'') \<and> \<not> truthy (data_of j ''user_submitted_page'')
       then Inr (failure (Error [Txt ''Reddit post failed - no post confirmation returned'']))
       else Inr (succeeded
                   (js_or (data_of j ''id'') (js_or (data_of j ''name'') (JStr ''unknown'')))
                   (or_empty (js_or (data_of j ''url'')
                                (data_of j ''user_submitted_page'')))))"
    if "m = JArr [item] \<and> getp item ''cloudinaryUrl'' = Inr u \<and>
        uploadImageToRedditAsset u token w0 = (Inr up, w)"
    using that by (simp add: reddit_image step(3))
  show ?thesis
  proof (intro conjI impI)
    assume e: "optp j ''errors'' = JArr (x # xs)"
    note ae = error_array [OF e]
    show "fst (postToReddit c token m ua sub w) =
             Inr (failure (Error [Txt ''Reddit API error: '', Json (JArr (x # xs))]))"
      if "\<not> has_media m"
      using plain [OF that] ae e by simp
    show "fst (postToReddit c token m ua sub w0) =
             Inr (failure (Error [Txt ''Reddit API error: '', Json (JArr (x # xs))]))"
      if "isArray m \<and> 1 < length (elems m) \<and>
         gallery_loop (elems m) token [] w0 = (Inr galleryItems, w)"
      using multi [OF that] ae e by simp
    show "fst (postToReddit c token m ua sub w0) =
             Inr (failure (Error [Txt ''Reddit API error: '', Json (JArr (x # xs))]))"
      if "m = JArr [item] \<and> getp item ''cloudinaryUrl'' = Inr u \<and>
         uploadImageToRedditAsset u token w0 = (Inr up, w)"
      using single [OF that] ae e by simp
  next
    assume n: "\<not> truthy (data_of j ''id'')"
    show "\<exists>e. fst (postToReddit c token m ua sub w) = Inr (failure e)" if "\<not> has_media m"
      using plain [OF that] n by auto
    show "\<exists>e. fst (postToReddit c token m ua sub w0) = Inr (failure e)"
      if "isArray m \<and> 1 < length (elems m) \<and>
         gallery_loop (elems m) token [] w0 = (Inr galleryItems, w)"
      using multi [OF that] n by auto
    show "\<exists>e. fst (postToReddit c token m ua sub w0) = Inr (failure e)"
      if "m = JArr [item] \<and> getp item ''cloudinaryUrl'' = Inr u \<and>
         uploadImageToRedditAsset u token w0 = (Inr up, w)"
        "\<not> truthy (data_of j ''user_submitted_page'')"
      using single [OF that(1)] n that(2) by auto
    show "fst (postToReddit c token m ua sub w0) =
                Inr (succeeded (js_or (data_of j ''name'') (JStr ''unknown''))
                       (or_empty (js_or (data_of j ''url'')
                                    (data_of j ''user_submitted_page''))))"
      if "m = JArr [item] \<and> getp item ''cloudinaryUrl'' = Inr u \<and>
         uploadImageToRedditAsset u token w0 = (Inr up, w)"
        "\<not> api_errors j \<and> truthy (data_of j ''user_submitted_page'')"
      using single [OF that(1)] n that(2) by (simp add: js_or_def)
  qed
qed

text \<open>
  Claim C7 as stated fails on the single image branch: Reddit's answer to an image
  submission may carry no \<open>id\<close> (and no \<open>name\<close>) and the page of the user's submissions
  instead, which the source accepts as confirmation. The publisher then returns a success
  whose \<open>postId\<close> is \<open>'unknown'\<close>.
\<close>

theorem reddit_image_success_without_id:
  "data_of (JObj [(''errors'', JArr []),
                  (''data'', JObj [(''user_submitted_page'',
                                    JStr ''https://www.reddit.com/user/a/submitted/'')])])
     ''id'' = JUndef \<and>
   fst (postToReddit ''hello'' (Some ''token'') (JArr [picture ''https://cdn/a.jpg'']) None
          (Some ''test'')
          (idle\<lparr>net := [leased ''k1'' ''asset1'', fine, fine, page_only]\<rparr>)) =
     Inr \<lparr>success = True, postId = Some [Txt ''unknown''],
          post_url = Some [Txt ''https://www.reddit.com/user/a/submitted/''],
          error = None\<rparr>"
  by (simp add: reddit_defs)

text \<open>
  The branch for media that is a single object (\<open>{hasMedia: true, ...}\<close>, the shape the
  scheduling endpoint stores for a non-array upload) submits a text post and reads the
  answer with neither check, unlike the text branch without media: an answer carrying an
  error array is returned as a success.
\<close>

lemma reddit_object_media_unchecked:
  "fst (postToReddit ''hello'' (Some ''token'')
          (JObj [(''hasMedia'', JBool True), (''cloudinaryUrl'', JStr ''https://cdn/a.jpg'')])
          None (Some ''test'') (idle\<lparr>net := [rate_limited]\<rparr>)) =
     Inr \<lparr>success = True, postId = Some [Txt ''unknown''], post_url = Some [Txt []],
          error = None\<rparr>"
  by (simp add: reddit_defs)

theorem reddit_submit_response_checked_witness:
  "fst (postToReddit ''hello'' (Some ''token'') (JArr []) None (Some ''test'')
          (idle\<lparr>net := [rate_limited]\<rparr>)) =
     Inr (failure (Error [Txt ''Reddit API error: '', Json (JArr [JArr [JStr ''RATELIMIT'']])])) \<and>
   fst (postToReddit ''hello'' (Some ''token'') (JArr [picture ''https://cdn/a.jpg'']) None
          (Some ''test'')
          (idle\<lparr>net := [leased ''k1'' ''asset1'', fine, fine, rate_limited]\<rparr>)) =
     Inr (failure (Error [Txt ''Reddit API error: '', Json (JArr [JArr [JStr ''RATELIMIT'']])])) \<and>
   fst (postToReddit ''hello'' (Some ''token'')
          (JArr [picture ''https://cdn/a.jpg'', picture ''https://cdn/b.jpg'']) None
          (Some ''test'')
          (idle\<lparr>net := [leased ''k1'' ''asset1'', fine, fine,
                          leased ''k2'' ''asset2'', fine, fine, rate_limited]\<rparr>)) =
     Inr (failure (Error [Txt ''Reddit API error: '', Json (JArr [JArr [JStr ''RATELIMIT'']])]))"
  using reddit_submit_response_checked
    [where w = "idle\<lparr>net := [rate_limited]\<rparr>"
       and resp = "reply (JObj [(''json'', JObj [(''errors'', JArr [JArr [JStr ''RATELIMIT'']])])])"
       and rest = "[]"
       and result = "JObj [(''json'', JObj [(''errors'', JArr [JArr [JStr ''RATELIMIT'']])])]"
       and j = "JObj [(''errors'', JArr [JArr [JStr ''RATELIMIT'']])]"
       and x = "JArr [JStr ''RATELIMIT'']" and xs = "[]"
       and m = "JArr []" and c = "''hello''" and token = "Some ''token''" and ua = None
       and sub = "Some ''test''"]
    reddit_submit_response_checked
    [where w = "snd (uploadImageToRedditAsset (JStr ''https://cdn/a.jpg'') (Some ''token'')
                       (idle\<lparr>net := [leased ''k1'' ''asset1'', fine, fine, rate_limited]\<rparr>))"
       and w0 = "idle\<lparr>net := [leased ''k1'' ''asset1'', fine, fine, rate_limited]\<rparr>"
       and resp = "reply (JObj [(''json'', JObj [(''errors'', JArr [JArr [JStr ''RATELIMIT'']])])])"
       and rest = "[]"
       and result = "JObj [(''json'', JObj [(''errors'', JArr [JArr [JStr ''RATELIMIT'']])])]"
       and j = "JObj [(''errors'', JArr [JArr [JStr ''RATELIMIT'']])]"
       and x = "JArr [JStr ''RATELIMIT'']" and xs = "[]"
       and m = "JArr [picture ''https://cdn/a.jpg'']" and item = "picture ''https://cdn/a.jpg''"
       and u = "JStr ''https://cdn/a.jpg''"
       and up = "(JStr ''asset1'', redditImageUrl (JStr ''k1''))"
       and c = "''hello''" and token = "Some ''token''" and ua = None
       and sub = "Some ''test''"]
    reddit_submit_response_checked
    [where w = "snd (gallery_loop [picture ''https://cdn/a.jpg'', picture ''https://cdn/b.jpg'']
                       (Some ''token'') []
                       (idle\<lparr>net := [leased ''k1'' ''asset1'', fine, fine,
                                       leased ''k2'' ''asset2'', fine, fine, rate_limited]\<rparr>))"
       and w0 = "idle\<lparr>net := [leased ''k1'' ''asset1'', fine, fine,
                              leased ''k2'' ''asset2'', fine, fine, rate_limited]\<rparr>"
       and resp = "reply (JObj [(''json'', JObj [(''errors'', JArr [JArr [JStr ''RATELIMIT'']])])])"
       and rest = "[]"
       and result = "JObj [(''json'', JObj [(''errors'', JArr [JArr [JStr ''RATELIMIT'']])])]"
       and j = "JObj [(''errors'', JArr [JArr [JStr ''RATELIMIT'']])]"
       and x = "JArr [JStr ''RATELIMIT'']" and xs = "[]"
       and m = "JArr [picture ''https://cdn/a.jpg'', picture ''https://cdn/b.jpg'']"
       and galleryItems = "[gallery_item (JStr ''asset1''), gallery_item (JStr ''asset2'')]"
       and c = "''hello''" and token = "Some ''token''" and ua = None
       and sub = "Some ''test''"]
  by (simp add: reddit_defs)

end
